theory Spec2Isabelle
  imports Complex_Main
begin

section \<open>The throw-and-catch cursor of flickmouse\<close>

text \<open>
  A shallow embedding of the gesture-to-throw engine of the application module (the first
  module of \<^verbatim>\<open>src/unnamed/part_001\<close>, to which the line numbers below refer): the sample
  history, the debounced tap/flick action, the lookahead-delayed commit, the curveball
  path plan and the per-frame integrator. The repository keeps earlier versions of the
  same module; \<^verbatim>\<open>src/unnamed/part_000\<close> is one.

  Every JavaScript \<^verbatim>\<open>number\<close> is a \<^typ>\<open>real\<close>: arithmetic is exact, there is no
  rounding, no NaN and no infinity. The two coefficients of the sensitivity curve are the
  one exception among the constants: they stand at the values of the doubles that their
  literals denote, because the curve at the slider's maximum depends on them to the last
  bit. Timestamps (\<^verbatim>\<open>Date.now()\<close>, whole milliseconds in the
  browser) are reals as well, since the code mixes them freely with the other numbers.
  Each read of the clock, the frame's \<^verbatim>\<open>delta\<close> and the window's inner size are
  arguments of the function that reads them; the window's inner size itself is part of the
  state, changed by a resize. The entity of the koota world is spawned with
  every trait, so each \<^verbatim>\<open>get\<close> finds its trait and the \<^verbatim>\<open>??\<close> defaults are never
  taken; the entity is a record with one field per trait.
\<close>

subsection \<open>Constants\<close>

definition ARM_DIRECTION_HISTORY_MAX_AGE_MS :: real where
  "ARM_DIRECTION_HISTORY_MAX_AGE_MS = 200"

definition MIN_THROW_SPEED_THRESHOLD :: real where
  "MIN_THROW_SPEED_THRESHOLD = 5"

definition TAP_ACTION_DEBOUNCE_MS :: real where
  "TAP_ACTION_DEBOUNCE_MS = 100"

definition ANGULAR_FRICTION_CONSTANT :: real where
  "ANGULAR_FRICTION_CONSTANT = 8 / 10"

definition MIN_CONTINUING_ANGULAR_VELOCITY :: real where
  "MIN_CONTINUING_ANGULAR_VELOCITY = 2 / 100"

definition MIN_SEGMENTS_FOR_ENDING_CURVE :: nat where
  "MIN_SEGMENTS_FOR_ENDING_CURVE = 2"

definition FRICTION_FACTOR_HIGH_SPEED :: real where
  "FRICTION_FACTOR_HIGH_SPEED = 14 / 10"

definition FRICTION_FACTOR_LOW_SPEED :: real where
  "FRICTION_FACTOR_LOW_SPEED = 6"

definition FRICTION_TRANSITION_MAX_SPEED :: real where
  "FRICTION_TRANSITION_MAX_SPEED = 300"

definition FLICK_SENSITIVITY_EXPONENT :: nat where
  "FLICK_SENSITIVITY_EXPONENT = 3"

text \<open>The literals \<^verbatim>\<open>-1.8\<close> and \<^verbatim>\<open>2.8\<close> are no doubles. The code holds the doubles
  nearest to them, \<open>-8106479329266893 / 2\<^sup>5\<^sup>2\<close> (a little below \<open>-1.8\<close>) and
  \<open>6305039478318694 / 2\<^sup>5\<^sup>1\<close> (a little below \<open>2.8\<close>); their sum is \<open>1 - 2\<^sup>-\<^sup>5\<^sup>2\<close>, not 1.\<close>

definition FLICK_SENSITIVITY_UI_QUADRATIC_A :: real where
  "FLICK_SENSITIVITY_UI_QUADRATIC_A = - (8106479329266893 / 2 ^ 52)"

definition FLICK_SENSITIVITY_UI_QUADRATIC_B :: real where
  "FLICK_SENSITIVITY_UI_QUADRATIC_B = 6305039478318694 / 2 ^ 51"

definition BOUNDARY_PADDING :: real where
  "BOUNDARY_PADDING = 50"

subsection \<open>Data\<close>

text \<open>\<^verbatim>\<open>interface Vector2 { x: number; y: number; }\<close>; the traits \<^verbatim>\<open>MousePosition\<close> and
  \<^verbatim>\<open>MouseVelocity\<close> have the same two fields.\<close>

record Vector2 =
  vx :: real
  vy :: real

text \<open>An element of \<^verbatim>\<open>ArmDirectionHistory.samples\<close>.\<close>

record sample =
  dx :: real
  dy :: real
  timestamp :: real

text \<open>An element of \<^verbatim>\<open>ThrowPathPlan.segments\<close>; its direction fields are \<^verbatim>\<open>dx\<close> and
  \<^verbatim>\<open>dy\<close> in the source.\<close>

record segment =
  seg_dx :: real
  seg_dy :: real
  duration :: real

record path_plan =
  segments :: "segment list"
  currentIndex :: nat
  activeTimeInSegment :: real
  endingAngularVelocity :: real

text \<open>
  The entity's traits that the engine reads or writes, the module-level variable
  \<^verbatim>\<open>lastTapActionTimestamp\<close>, the callbacks handed to \<^verbatim>\<open>setTimeout\<close> that have not
  run yet (each is the \<^verbatim>\<open>tapTimestamp\<close> its closure captured, oldest first), and the
  window's \<^verbatim>\<open>globalThis.innerWidth\<close> and \<^verbatim>\<open>globalThis.innerHeight\<close>.
\<close>

record state =
  MousePosition :: Vector2
  MouseVelocity :: Vector2
  IsThrown :: bool
  IsThrowPending :: bool
  ArmDirection :: "Vector2 option"
  ArmDirectionHistory :: "sample list"
  ConfigurableThrowWindowMs :: real
  ConfigurableThrowStrength :: real
  ConfigurableLookaheadDelayMs :: real
  FlickSensitivity :: real
  EnableCurveball :: bool
  ThrowPathPlan :: path_plan
  MouseAngularVelocityCurve :: real
  MouseContinuingAngularVelocity :: real
  LastTapTime :: "real option"
  GestureProb :: "real option"
  lastTapActionTimestamp :: real
  timeouts :: "real list"
  window_innerWidth :: real
  window_innerHeight :: real

definition emptyPlan :: path_plan where
  "emptyPlan = \<lparr>segments = [], currentIndex = 0, activeTimeInSegment = 0,
     endingAngularVelocity = 0\<rparr>"

definition zeroVector :: Vector2 where
  "zeroVector = \<lparr>vx = 0, vy = 0\<rparr>"

subsection \<open>Library functions of the platform\<close>

text \<open>\<^verbatim>\<open>Math.atan2(y, x)\<close> on reals: the angle of the point \<open>(x, y)\<close> in \<open>(-\<pi>, \<pi>]\<close>, and 0
  at the origin.\<close>

definition Math_atan2 :: "real \<Rightarrow> real \<Rightarrow> real" where
  "Math_atan2 b a =
     (if 0 < a then arctan (b / a)
      else if a < 0 then (if 0 \<le> b then arctan (b / a) + pi else arctan (b / a) - pi)
      else if 0 < b then pi / 2
      else if b < 0 then - (pi / 2)
      else 0)"

subsection \<open>The commit: \<^verbatim>\<open>executeActualThrowLogic\<close>\<close>

text \<open>The filter of lines 96-98: the samples of the history inside
  \<open>[tapTimestamp - throwWindowMs, tapTimestamp + lookaheadDelayMs]\<close>, in the history's order.\<close>

definition recentSamples :: "state \<Rightarrow> real \<Rightarrow> sample list" where
  "recentSamples s tapTimestamp =
     filter (\<lambda>sm. tapTimestamp - ConfigurableThrowWindowMs s \<le> timestamp sm
                  \<and> timestamp sm \<le> tapTimestamp + ConfigurableLookaheadDelayMs s)
       (ArmDirectionHistory s)"

text \<open>Lines 109-117: the two running sums of the loop, divided by the number of samples.\<close>

definition averageDirection :: "sample list \<Rightarrow> real \<times> real" where
  "averageDirection recent =
     (foldl (\<lambda>sumDx sm. sumDx + dx sm) 0 recent / real (length recent),
      foldl (\<lambda>sumDy sm. sumDy + dy sm) 0 recent / real (length recent))"

text \<open>Lines 109-128: the averaged direction, else the cached instantaneous direction, else
  nothing (the commit gives up).\<close>

definition baseDirection :: "state \<Rightarrow> sample list \<Rightarrow> (real \<times> real) option" where
  "baseDirection s recent =
     (if recent \<noteq> [] then Some (averageDirection recent)
      else (case ArmDirection s of
              Some armDir \<Rightarrow> Some (vx armDir, vy armDir)
            | None \<Rightarrow> None))"

text \<open>Lines 135-152: the loop over the sorted samples. A sample of magnitude above 0.001
  becomes a unit segment; its duration is the gap to the next sample of the sorted list
  (whether or not that one is usable) in seconds, at least 0.02, and 0.2 for the last
  sample.\<close>

fun buildPathSegments :: "sample list \<Rightarrow> segment list" where
  "buildPathSegments [] = []"
| "buildPathSegments (currentSample # rest) =
     (let mag = sqrt (dx currentSample * dx currentSample + dy currentSample * dy currentSample)
      in if mag > 1 / 1000
         then \<lparr>seg_dx = dx currentSample / mag, seg_dy = dy currentSample / mag,
               duration = (case rest of
                             [] \<Rightarrow> 2 / 10
                           | nextSample # _ \<Rightarrow>
                               max (2 / 100) ((timestamp nextSample - timestamp currentSample) / 1000))\<rparr>
              # buildPathSegments rest
         else buildPathSegments rest)"

text \<open>Lines 167-168: the two \<^verbatim>\<open>while\<close> loops that bring the angle difference back into
  \<open>[-\<pi>, \<pi>]\<close>.\<close>

function wrapDown :: "real \<Rightarrow> real" where
  "wrapDown angleDiff = (if angleDiff > pi then wrapDown (angleDiff - 2 * pi) else angleDiff)"
  by pat_completeness auto
termination
proof (relation "measure (\<lambda>a. nat \<lceil>a / (2 * pi)\<rceil>)")
  show "wf (measure (\<lambda>a. nat \<lceil>a / (2 * pi)\<rceil>))" by simp
next
  fix angleDiff :: real
  assume gt: "pi < angleDiff"
  define k where "k = \<lceil>angleDiff / (2 * pi)\<rceil>"
  have "(angleDiff - 2 * pi) / (2 * pi) = angleDiff / (2 * pi) - 1"
    by (simp add: field_simps)
  then have c: "\<lceil>(angleDiff - 2 * pi) / (2 * pi)\<rceil> = k - 1"
    unfolding k_def by simp
  have "0 < angleDiff" using gt pi_gt_zero by linarith
  then have "0 < angleDiff / (2 * pi)" using pi_gt_zero by (intro divide_pos_pos) simp_all
  then have "0 < k" unfolding k_def by simp
  then have "nat (k - 1) < nat k" by linarith
  then show "(angleDiff - 2 * pi, angleDiff) \<in> measure (\<lambda>a. nat \<lceil>a / (2 * pi)\<rceil>)"
    unfolding in_measure c k_def .
qed

function wrapUp :: "real \<Rightarrow> real" where
  "wrapUp angleDiff = (if angleDiff < - pi then wrapUp (angleDiff + 2 * pi) else angleDiff)"
  by pat_completeness auto
termination
proof (relation "measure (\<lambda>a. nat \<lceil>(- a) / (2 * pi)\<rceil>)")
  show "wf (measure (\<lambda>a. nat \<lceil>(- a) / (2 * pi)\<rceil>))" by simp
next
  fix angleDiff :: real
  assume lt: "angleDiff < - pi"
  define k where "k = \<lceil>(- angleDiff) / (2 * pi)\<rceil>"
  have "(- (angleDiff + 2 * pi)) / (2 * pi) = (- angleDiff) / (2 * pi) - 1"
    by (simp add: field_simps)
  then have c: "\<lceil>(- (angleDiff + 2 * pi)) / (2 * pi)\<rceil> = k - 1"
    unfolding k_def by (simp only: ceiling_diff_one)
  have "0 < - angleDiff" using lt pi_gt_zero by linarith
  then have "0 < (- angleDiff) / (2 * pi)" using pi_gt_zero by (intro divide_pos_pos) simp_all
  then have "0 < k" unfolding k_def by (simp only: zero_less_ceiling)
  then have "nat (k - 1) < nat k" by linarith
  then show "(angleDiff + 2 * pi, angleDiff) \<in> measure (\<lambda>a. nat \<lceil>(- a) / (2 * pi)\<rceil>)"
    unfolding in_measure c k_def .
qed

declare wrapDown.simps [simp del] wrapUp.simps [simp del]

text \<open>Lines 161-171: the angular velocity of one adjacent pair.\<close>

definition pairAngularVelocity :: "segment \<Rightarrow> segment \<Rightarrow> real" where
  "pairAngularVelocity seg1 seg2 =
     (let angle1 = Math_atan2 (seg_dy seg1) (seg_dx seg1);
          angle2 = Math_atan2 (seg_dy seg2) (seg_dx seg2);
          angleDiff = wrapUp (wrapDown (angle2 - angle1));
          relevantDuration = (if duration seg2 > 1 / 1000 then duration seg2 else 2 / 100)
      in angleDiff / relevantDuration)"

text \<open>Lines 160-178: the loop over the adjacent pairs, with its loop index and its three
  accumulators \<^verbatim>\<open>weightedSumAngularVelocity\<close>, \<^verbatim>\<open>sumOfWeights\<close> and
  \<^verbatim>\<open>numAngleDiffsCalculated\<close>.\<close>

fun angularLoop :: "segment list \<Rightarrow> nat \<Rightarrow> real \<times> real \<times> nat \<Rightarrow> real \<times> real \<times> nat" where
  "angularLoop (seg1 # seg2 # rest) i (weightedSum, sumOfWeights, num) =
     angularLoop (seg2 # rest) (i + 1)
       (weightedSum + pairAngularVelocity seg1 seg2 * real (i + 1),
        sumOfWeights + real (i + 1),
        num + 1)"
| "angularLoop _ i acc = acc"

text \<open>Lines 155-190: the value stored as \<^verbatim>\<open>endingAngularVelocity\<close> for a non-empty list
  of segments.\<close>

definition calculatedEndingAngularVelocity :: "segment list \<Rightarrow> real" where
  "calculatedEndingAngularVelocity pathSegments =
     (if length pathSegments \<ge> MIN_SEGMENTS_FOR_ENDING_CURVE
      then (case angularLoop pathSegments 0 (0, 0, 0) of
              (weightedSum, sumOfWeights, num) \<Rightarrow>
                if num > 0 \<and> sumOfWeights > 0 then weightedSum / sumOfWeights else 0)
      else 0)"

text \<open>Lines 130-215: the plan and the two angular velocities written by the commit, and
  the direction of the throw.\<close>

definition planThrow :: "state \<Rightarrow> sample list \<Rightarrow> real \<times> real \<Rightarrow> state \<times> (real \<times> real)" where
  "planThrow s recent base =
     (if EnableCurveball s \<and> recent \<noteq> []
      then (let pathSegments = buildPathSegments (sort_key timestamp recent)
            in if pathSegments \<noteq> []
               then (s\<lparr>ThrowPathPlan :=
                          \<lparr>segments = pathSegments, currentIndex = 0, activeTimeInSegment = 0,
                           endingAngularVelocity = calculatedEndingAngularVelocity pathSegments\<rparr>,
                        MouseContinuingAngularVelocity :=
                          calculatedEndingAngularVelocity pathSegments,
                        MouseAngularVelocityCurve := 0\<rparr>,
                     (seg_dx (hd pathSegments), seg_dy (hd pathSegments)))
               else (s\<lparr>ThrowPathPlan := emptyPlan, MouseContinuingAngularVelocity := 0,
                        MouseAngularVelocityCurve := 0\<rparr>, base))
      else (s\<lparr>ThrowPathPlan := emptyPlan, MouseAngularVelocityCurve := 0,
               MouseContinuingAngularVelocity := 0\<rparr>, base))"

text \<open>\<^verbatim>\<open>executeActualThrowLogic\<close> of the current module (the version with the
  curveball, lines 76-223).\<close>

definition executeActualThrowLogic :: "state \<Rightarrow> real \<Rightarrow> state" where
  "executeActualThrowLogic s tapTimestamp =
     (if IsThrown s then s
      else (case baseDirection s (recentSamples s tapTimestamp) of
              None \<Rightarrow> s\<lparr>IsThrown := False\<rparr>
            | Some base \<Rightarrow>
                (case planThrow s (recentSamples s tapTimestamp) base of
                   (s', (throwDx, throwDy)) \<Rightarrow>
                     s'\<lparr>MouseVelocity := \<lparr>vx = throwDx * ConfigurableThrowStrength s,
                                           vy = throwDy * ConfigurableThrowStrength s\<rparr>,
                        IsThrown := True\<rparr>)))"

text \<open>\<^verbatim>\<open>executeActualThrowLogic\<close> of the earlier module \<^verbatim>\<open>src/unnamed/part_000\<close> (no
  curveball; its lines 65-141), which stops at a zero direction (lines 128-133).\<close>

definition executeActualThrowLogic_v0 :: "state \<Rightarrow> real \<Rightarrow> state" where
  "executeActualThrowLogic_v0 s tapTimestamp =
     (if IsThrown s then s
      else (case baseDirection s (recentSamples s tapTimestamp) of
              None \<Rightarrow> s\<lparr>IsThrown := False\<rparr>
            | Some (throwDx, throwDy) \<Rightarrow>
                if throwDx = 0 \<and> throwDy = 0
                then s\<lparr>IsThrown := False, MouseVelocity := zeroVector\<rparr>
                else s\<lparr>MouseVelocity := \<lparr>vx = throwDx * ConfigurableThrowStrength s,
                                          vy = throwDy * ConfigurableThrowStrength s\<rparr>,
                       IsThrown := True\<rparr>))"

subsection \<open>The action: \<^verbatim>\<open>performThrowOrCatchAction\<close> and its deferred callback\<close>

text \<open>The body of the arrow function given to \<^verbatim>\<open>setTimeout\<close> (lines 259-266), with the
  \<^verbatim>\<open>tapTimestamp\<close> its closure holds.\<close>

definition timeoutCallback :: "state \<Rightarrow> real \<Rightarrow> state" where
  "timeoutCallback s tapTimestamp =
     (if IsThrowPending s then executeActualThrowLogic s tapTimestamp else s)
       \<lparr>IsThrowPending := False\<rparr>"

text \<open>Lines 225-272. \<open>now\<close> and \<open>tapTimestamp\<close> are the two reads of \<^verbatim>\<open>Date.now()\<close>.
  \<^verbatim>\<open>setTimeout\<close> appends the callback to the callbacks that wait.\<close>

definition performThrowOrCatchAction :: "state \<Rightarrow> real \<Rightarrow> real \<Rightarrow> state" where
  "performThrowOrCatchAction s now tapTimestamp =
     (if now - lastTapActionTimestamp s < TAP_ACTION_DEBOUNCE_MS then s
      else (let s1 = s\<lparr>lastTapActionTimestamp := now, LastTapTime := Some now\<rparr>
            in if IsThrowPending s1 then s1
               else if IsThrown s1
               then (let s2 = s1\<lparr>IsThrown := False, MouseVelocity := zeroVector\<rparr>
                     in if IsThrowPending s2 then s2\<lparr>IsThrowPending := False\<rparr> else s2)
               else if ConfigurableLookaheadDelayMs s1 > 0
               then s1\<lparr>IsThrowPending := True, timeouts := timeouts s1 @ [tapTimestamp]\<rparr>
               else executeActualThrowLogic s1 tapTimestamp))"

text \<open>The browser runs the oldest waiting callback.\<close>

definition fireTimeout :: "state \<Rightarrow> state" where
  "fireTimeout s =
     (case timeouts s of
        [] \<Rightarrow> s
      | tapTimestamp # waiting \<Rightarrow> timeoutCallback (s\<lparr>timeouts := waiting\<rparr>) tapTimestamp)"

subsection \<open>The listeners of \<^verbatim>\<open>WatchManager\<close>\<close>

text \<open>Lines 315-318 of \<^verbatim>\<open>probabilityListener\<close>.\<close>

definition flickSensitivityInternal :: "real \<Rightarrow> real" where
  "flickSensitivityInternal currentFlickSensitivityUI =
     FLICK_SENSITIVITY_UI_QUADRATIC_A * currentFlickSensitivityUI ^ 2
       + FLICK_SENSITIVITY_UI_QUADRATIC_B * currentFlickSensitivityUI"

definition clampedFlickSensitivityInternal :: "real \<Rightarrow> real" where
  "clampedFlickSensitivityInternal currentFlickSensitivityUI =
     max 0 (min 1 (flickSensitivityInternal currentFlickSensitivityUI))"

definition probabilityThreshold :: "real \<Rightarrow> real" where
  "probabilityThreshold currentFlickSensitivityUI =
     (1 - clampedFlickSensitivityInternal currentFlickSensitivityUI) ^ FLICK_SENSITIVITY_EXPONENT"

text \<open>Lines 311-320: whether the listener calls the action. The argument \<open>tapEntry\<close> is
  \<^verbatim>\<open>gestureProb?.tap\<close>, absent or a number.\<close>

definition flickDetected :: "real \<Rightarrow> real option \<Rightarrow> bool" where
  "flickDetected currentFlickSensitivityUI tapEntry =
     (currentFlickSensitivityUI > 0
      \<and> (case tapEntry of Some tapProbability \<Rightarrow> tapProbability | None \<Rightarrow> 0)
          \<ge> probabilityThreshold currentFlickSensitivityUI)"

definition tapListener :: "state \<Rightarrow> real \<Rightarrow> real \<Rightarrow> state" where
  "tapListener s now tapTimestamp = performThrowOrCatchAction s now tapTimestamp"

definition probabilityListener :: "state \<Rightarrow> real option \<Rightarrow> real \<Rightarrow> real \<Rightarrow> state" where
  "probabilityListener s tapEntry now tapTimestamp =
     (let s1 = s\<lparr>GestureProb := tapEntry\<rparr>
      in if flickDetected (FlickSensitivity s1) tapEntry
         then performThrowOrCatchAction s1 now tapTimestamp
         else s1)"

text \<open>Lines 327-343. \<open>eventData\<close> is \<open>None\<close> when the event carries no two numbers;
  \<open>pushed\<close> and \<open>now\<close> are the two reads of \<^verbatim>\<open>Date.now()\<close>.\<close>

definition armDirectionListener :: "state \<Rightarrow> (real \<times> real) option \<Rightarrow> real \<Rightarrow> real \<Rightarrow> state" where
  "armDirectionListener s eventData pushed now =
     (case eventData of
        None \<Rightarrow> s
      | Some (edx, edy) \<Rightarrow>
          s\<lparr>ArmDirection := Some \<lparr>vx = edx, vy = edy\<rparr>,
            ArmDirectionHistory :=
              filter (\<lambda>sm. now - timestamp sm \<le> ARM_DIRECTION_HISTORY_MAX_AGE_MS)
                (ArmDirectionHistory s @ [\<lparr>dx = edx, dy = edy, timestamp = pushed\<rparr>])\<rparr>)"

subsection \<open>The integrator: the \<^verbatim>\<open>useFrame\<close> callback of \<^verbatim>\<open>R3FMouseCursor\<close>\<close>

text \<open>The condition of lines 431 and 459.\<close>

definition isPathPlanActive :: "bool \<Rightarrow> path_plan \<Rightarrow> bool" where
  "isPathPlanActive enableCurveball plan =
     (enableCurveball \<and> length (segments plan) > 0
      \<and> currentIndex plan < length (segments plan))"

text \<open>Lines 432-456, for an active plan: the velocity turned to the segment's direction
  at the current speed, and the plan moved on. Both branches of the inner \<^verbatim>\<open>if\<close> of line
  442 do the same.\<close>

definition followPlan :: "path_plan \<Rightarrow> real \<Rightarrow> real \<Rightarrow> real \<times> real \<Rightarrow> path_plan \<times> (real \<times> real)" where
  "followPlan plan delta currentSpeed vel =
     (let seg = segments plan ! currentIndex plan;
          vel' = (if currentSpeed > 1 / 100
                  then (seg_dx seg * currentSpeed, seg_dy seg * currentSpeed) else vel);
          t = activeTimeInSegment plan + delta
      in (if t \<ge> duration seg
          then plan\<lparr>currentIndex := currentIndex plan + 1, activeTimeInSegment := 0\<rparr>
          else plan\<lparr>activeTimeInSegment := t\<rparr>,
          vel'))"

text \<open>Lines 462-478: the velocity rotated by the continuing angular velocity, and that
  angular velocity after its own friction.\<close>

definition spin :: "real \<Rightarrow> real \<Rightarrow> real \<times> real \<Rightarrow> (real \<times> real) \<times> real" where
  "spin currentContinuingAngularVelocity delta vel =
     (if currentContinuingAngularVelocity \<noteq> 0
      then (let angleDelta = currentContinuingAngularVelocity * delta;
                cosA = cos angleDelta;
                sinA = sin angleDelta;
                nextContinuingAngularVelocity =
                  currentContinuingAngularVelocity * (1 - ANGULAR_FRICTION_CONSTANT * delta)
            in ((fst vel * cosA - snd vel * sinA, fst vel * sinA + snd vel * cosA),
                if \<bar>nextContinuingAngularVelocity\<bar> < MIN_CONTINUING_ANGULAR_VELOCITY
                then 0 else nextContinuingAngularVelocity))
      else (vel, currentContinuingAngularVelocity))"

text \<open>Lines 481-489.\<close>

definition dynamicFrictionFactor :: "real \<Rightarrow> real" where
  "dynamicFrictionFactor currentSpeed =
     (if currentSpeed \<le> MIN_THROW_SPEED_THRESHOLD then FRICTION_FACTOR_LOW_SPEED
      else if currentSpeed \<ge> FRICTION_TRANSITION_MAX_SPEED then FRICTION_FACTOR_HIGH_SPEED
      else (let speedRatio = (currentSpeed - MIN_THROW_SPEED_THRESHOLD)
                               / (FRICTION_TRANSITION_MAX_SPEED - MIN_THROW_SPEED_THRESHOLD)
            in FRICTION_FACTOR_LOW_SPEED
                 + (FRICTION_FACTOR_HIGH_SPEED - FRICTION_FACTOR_LOW_SPEED) * speedRatio))"

text \<open>Lines 501-508 (and 509-516 for the other axis): the two tests in sequence, on one
  coordinate and its velocity component; \<open>bound\<close> is the window's inner width or height.\<close>

definition clampAxis :: "real \<Rightarrow> real \<times> real \<Rightarrow> real \<times> real" where
  "clampAxis bound pv =
     (let pv1 = (if fst pv < BOUNDARY_PADDING then (BOUNDARY_PADDING, 0) else pv)
      in if fst pv1 > bound - BOUNDARY_PADDING then (bound - BOUNDARY_PADDING, 0) else pv1)"


text \<open>The velocity after steps 2 to 5 of the frame (lines 429-499): plan or spin, friction,
  and the stop below the minimum speed. The result is the new velocity, whether the cursor
  is still thrown, the plan and the continuing angular velocity. The plan object is
  changed in place, so the second test of the plan (line 459) sees the index that the first
  branch has just moved. \<^verbatim>\<open>enableCurveball\<close> is the component's view of the trait
  \<^verbatim>\<open>EnableCurveball\<close>, read here from the entity.\<close>

definition frameVelocity :: "state \<Rightarrow> real \<Rightarrow> (real \<times> real) \<times> bool \<times> path_plan \<times> real" where
  "frameVelocity s delta =
     (let vel0 = (vx (MouseVelocity s), vy (MouseVelocity s));
          currentSpeed = sqrt (fst vel0 ^ 2 + snd vel0 ^ 2);
          (plan1, vel1) =
             (if isPathPlanActive (EnableCurveball s) (ThrowPathPlan s)
              then followPlan (ThrowPathPlan s) delta currentSpeed vel0
              else (ThrowPathPlan s, vel0));
          (vel2, cav) =
             (if EnableCurveball s \<and> \<not> isPathPlanActive (EnableCurveball s) plan1
                 \<and> currentSpeed > MIN_THROW_SPEED_THRESHOLD
              then spin (MouseContinuingAngularVelocity s) delta vel1
              else (vel1, MouseContinuingAngularVelocity s));
          k = 1 - dynamicFrictionFactor currentSpeed * delta;
          vel3 = (fst vel2 * k, snd vel2 * k);
          speedAfterFriction = sqrt (fst vel3 ^ 2 + snd vel3 ^ 2)
      in if speedAfterFriction < MIN_THROW_SPEED_THRESHOLD
         then ((0, 0), False, plan1, cav)
         else (vel3, True, plan1, cav))"

text \<open>The whole callback (lines 404-523), without the mesh: nothing happens unless the
  cursor is thrown.\<close>

definition useFrame :: "state \<Rightarrow> real \<Rightarrow> real \<Rightarrow> real \<Rightarrow> state" where
  "useFrame s delta innerWidth innerHeight =
     (if \<not> IsThrown s then s
      else (case frameVelocity s delta of
              (vel, thrown, plan, cav) \<Rightarrow>
                (let px = clampAxis innerWidth
                            (vx (MousePosition s) + vx (MouseVelocity s) * delta, fst vel);
                     py = clampAxis innerHeight
                            (vy (MousePosition s) + vy (MouseVelocity s) * delta, snd vel)
                 in s\<lparr>ThrowPathPlan := plan,
                      MouseContinuingAngularVelocity := cav,
                      IsThrown := thrown,
                      MousePosition := \<lparr>vx = fst px, vy = fst py\<rparr>,
                      MouseVelocity := \<lparr>vx = snd px, vy = snd py\<rparr>\<rparr>)))"

text \<open>The speed \<^verbatim>\<open>Math.sqrt(x**2 + y**2)\<close> of a velocity.\<close>

definition speed :: "Vector2 \<Rightarrow> real" where
  "speed v = sqrt (vx v ^ 2 + vy v ^ 2)"

subsection \<open>The resize handler of \<^verbatim>\<open>VirtualMouse\<close>\<close>

text \<open>Lines 641-652, run when the window has taken its new size: a cursor that is not
  thrown goes to the middle of the window, a thrown one stays where it is.\<close>

definition handleResize :: "state \<Rightarrow> state" where
  "handleResize s =
     (if \<not> IsThrown s
      then s\<lparr>MousePosition := \<lparr>vx = window_innerWidth s / 2, vy = window_innerHeight s / 2\<rparr>\<rparr>
      else s)"

subsection \<open>Events\<close>

text \<open>What the single-threaded event loop delivers: a tap, a probability event, an arm
  direction, a rendered frame, the oldest waiting timeout, or a resize of the window to a
  new inner size. Each carries the values the handler reads from outside (clock, frame
  time); a frame reads the size the window has.\<close>

datatype event =
  Tap real real
| Probability "real option" real real
| ArmDirectionChanged "(real \<times> real) option" real real
| Frame real
| Timeout
| Resize real real

fun step :: "state \<Rightarrow> event \<Rightarrow> state" where
  "step s (Tap now tapTimestamp) = tapListener s now tapTimestamp"
| "step s (Probability tapEntry now tapTimestamp) = probabilityListener s tapEntry now tapTimestamp"
| "step s (ArmDirectionChanged eventData pushed now) = armDirectionListener s eventData pushed now"
| "step s (Frame delta) = useFrame s delta (window_innerWidth s) (window_innerHeight s)"
| "step s Timeout = fireTimeout s"
| "step s (Resize newWidth newHeight) =
     handleResize (s\<lparr>window_innerWidth := newWidth, window_innerHeight := newHeight\<rparr>)"

definition run :: "state \<Rightarrow> event list \<Rightarrow> state" where
  "run s evs = foldl step s evs"

text \<open>The clock value with which an event reaches the debounce test of
  \<^verbatim>\<open>performThrowOrCatchAction\<close>, if it reaches it: every tap does, a probability event
  does when the flick is detected.\<close>

fun actionAttempt :: "state \<Rightarrow> event \<Rightarrow> real option" where
  "actionAttempt s (Tap now tapTimestamp) = Some now"
| "actionAttempt s (Probability tapEntry now tapTimestamp) =
     (if flickDetected (FlickSensitivity s) tapEntry then Some now else None)"
| "actionAttempt s _ = None"

text \<open>An attempt proceeds when the debounce test of line 227 lets it through.\<close>

definition proceeds :: "state \<Rightarrow> event \<Rightarrow> bool" where
  "proceeds s ev =
     (case actionAttempt s ev of
        Some now \<Rightarrow> \<not> now - lastTapActionTimestamp s < TAP_ACTION_DEBOUNCE_MS
      | None \<Rightarrow> False)"

subsection \<open>The specification's formulas\<close>

text \<open>The component-wise average of the samples' directions, as the specification words
  it.\<close>

definition spec_average :: "sample list \<Rightarrow> real \<times> real" where
  "spec_average recent =
     (sum_list (map dx recent) / real (length recent),
      sum_list (map dy recent) / real (length recent))"

text \<open>The specification's exit spin: the angular velocity of pair \<open>i\<close> is the signed
  angular difference of its two directions, wrapped, divided by the second segment's
  duration; the estimate is the average of these with weight \<open>i + 1\<close> for pair \<open>i\<close>.\<close>

definition spec_angleDiff :: "segment list \<Rightarrow> nat \<Rightarrow> real" where
  "spec_angleDiff segs i =
     wrapUp (wrapDown (Math_atan2 (seg_dy (segs ! (i + 1))) (seg_dx (segs ! (i + 1)))
                         - Math_atan2 (seg_dy (segs ! i)) (seg_dx (segs ! i))))"

definition spec_pairRate :: "segment list \<Rightarrow> nat \<Rightarrow> real" where
  "spec_pairRate segs i = spec_angleDiff segs i / duration (segs ! (i + 1))"

definition spec_weightedAverage :: "segment list \<Rightarrow> real" where
  "spec_weightedAverage segs =
     (\<Sum>i\<leftarrow>[0..<length segs - 1]. real (i + 1) * spec_pairRate segs i)
       / (\<Sum>i\<leftarrow>[0..<length segs - 1]. real (i + 1))"

subsection \<open>The entity at start\<close>

text \<open>The entity as \<^verbatim>\<open>AppContent\<close> spawns it (lines 845-863) in a window of the given
  inner size: every trait at its default, the cursor in the middle of the window, no action
  yet and no callback waiting.\<close>

definition initialState :: "real \<Rightarrow> real \<Rightarrow> state" where
  "initialState innerWidth innerHeight =
     \<lparr>MousePosition = \<lparr>vx = innerWidth / 2, vy = innerHeight / 2\<rparr>,
      MouseVelocity = zeroVector,
      IsThrown = False,
      IsThrowPending = False,
      ArmDirection = None,
      ArmDirectionHistory = [],
      ConfigurableThrowWindowMs = 50,
      ConfigurableThrowStrength = 900,
      ConfigurableLookaheadDelayMs = 30,
      FlickSensitivity = 0,
      EnableCurveball = False,
      ThrowPathPlan = emptyPlan,
      MouseAngularVelocityCurve = 0,
      MouseContinuingAngularVelocity = 0,
      LastTapTime = None,
      GestureProb = None,
      lastTapActionTimestamp = 0,
      timeouts = [],
      window_innerWidth = innerWidth,
      window_innerHeight = innerHeight\<rparr>"

subsection \<open>Notions used in the statements\<close>

text \<open>Whether an event records a sample: only a well-formed arm direction does.\<close>

fun recordsSample :: "event \<Rightarrow> bool" where
  "recordsSample (ArmDirectionChanged (Some d) pushed now) = True"
| "recordsSample _ = False"

text \<open>The magnitude of a sample's direction, and the test of line 138 that makes the
  sample a segment of the plan.\<close>

definition magnitude :: "sample \<Rightarrow> real" where
  "magnitude sm = sqrt (dx sm * dx sm + dy sm * dy sm)"

definition usable :: "sample \<Rightarrow> bool" where
  "usable sm = (magnitude sm > 1 / 1000)"

section \<open>The debounce clock\<close>

text \<open>Only \<^verbatim>\<open>performThrowOrCatchAction\<close> writes \<^verbatim>\<open>lastTapActionTimestamp\<close>.\<close>

lemma planThrow_last:
  "planThrow s recent base = (s', d) \<Longrightarrow> lastTapActionTimestamp s' = lastTapActionTimestamp s"
  by (auto simp: planThrow_def Let_def split: if_splits)

lemma execute_last:
  "lastTapActionTimestamp (executeActualThrowLogic s t) = lastTapActionTimestamp s"
  by (auto simp: executeActualThrowLogic_def planThrow_last split: option.splits prod.splits)

lemma perform_last:
  "lastTapActionTimestamp (performThrowOrCatchAction s now t) =
     (if now - lastTapActionTimestamp s < TAP_ACTION_DEBOUNCE_MS
      then lastTapActionTimestamp s else now)"
  by (simp add: performThrowOrCatchAction_def Let_def execute_last)

lemma timeoutCallback_last:
  "lastTapActionTimestamp (timeoutCallback s t) = lastTapActionTimestamp s"
  by (simp add: timeoutCallback_def execute_last)

lemma fireTimeout_last:
  "lastTapActionTimestamp (fireTimeout s) = lastTapActionTimestamp s"
  by (simp add: fireTimeout_def timeoutCallback_last split: list.splits)

lemma armDirectionListener_last:
  "lastTapActionTimestamp (armDirectionListener s e p n) = lastTapActionTimestamp s"
  by (simp add: armDirectionListener_def split: option.splits prod.splits)

lemma useFrame_last:
  "lastTapActionTimestamp (useFrame s d w h) = lastTapActionTimestamp s"
  by (simp add: useFrame_def Let_def split: prod.splits)

lemma probabilityListener_last:
  "lastTapActionTimestamp (probabilityListener s e now t) =
     (if flickDetected (FlickSensitivity s) e
         \<and> \<not> now - lastTapActionTimestamp s < TAP_ACTION_DEBOUNCE_MS
      then now else lastTapActionTimestamp s)"
  by (simp add: probabilityListener_def Let_def perform_last)

lemma handleResize_last:
  "lastTapActionTimestamp (handleResize s) = lastTapActionTimestamp s"
  by (simp add: handleResize_def)

lemma step_last:
  "lastTapActionTimestamp (step s ev) =
     (if proceeds s ev then the (actionAttempt s ev) else lastTapActionTimestamp s)"
  by (cases ev)
     (simp_all add: proceeds_def tapListener_def perform_last probabilityListener_last
        armDirectionListener_last useFrame_last fireTimeout_last handleResize_last)

text \<open>The clock never goes back: an attempt that proceeds is at least the debounce time
  after the value it replaces.\<close>

lemma step_last_mono: "lastTapActionTimestamp s \<le> lastTapActionTimestamp (step s ev)"
  unfolding step_last
  by (auto simp: proceeds_def TAP_ACTION_DEBOUNCE_MS_def split: option.splits)

lemma run_last_mono: "lastTapActionTimestamp s \<le> lastTapActionTimestamp (run s evs)"
proof (induction evs arbitrary: s)
  case Nil
  show ?case by (simp add: run_def)
next
  case (Cons ev evs)
  have "lastTapActionTimestamp s \<le> lastTapActionTimestamp (step s ev)"
    by (rule step_last_mono)
  also have "\<dots> \<le> lastTapActionTimestamp (run (step s ev) evs)"
    by (rule Cons.IH)
  finally show ?case by (simp add: run_def)
qed

text \<open>
  Claim C7. Take any execution \<open>before @ [e1] @ between @ [e2]\<close> from any state, in which
  \<open>e1\<close> and \<open>e2\<close> are action attempts (a tap, or a probability event whose flick is
  detected) with clock values \<open>t1\<close> and \<open>t2\<close> less than the debounce time apart. Then the two
  attempts do not both pass the debounce test, whichever of the two sources each comes
  from and whatever happens in between.
\<close>

theorem debounce_at_most_one:
  assumes a1: "actionAttempt (run s before) e1 = Some t1"
    and a2: "actionAttempt (run (step (run s before) e1) between) e2 = Some t2"
    and close: "\<bar>t2 - t1\<bar> < TAP_ACTION_DEBOUNCE_MS"
  shows "\<not> (proceeds (run s before) e1 \<and> proceeds (run (step (run s before) e1) between) e2)"
proof
  assume both: "proceeds (run s before) e1 \<and> proceeds (run (step (run s before) e1) between) e2"
  let ?s1 = "run s before"
  let ?s2 = "run (step ?s1 e1) between"
  from both a1 have "lastTapActionTimestamp (step ?s1 e1) = t1"
    by (simp add: step_last)
  then have "t1 \<le> lastTapActionTimestamp ?s2"
    using run_last_mono [of "step ?s1 e1" between] by simp
  moreover from both a2 have "\<not> t2 - lastTapActionTimestamp ?s2 < TAP_ACTION_DEBOUNCE_MS"
    by (simp add: proceeds_def)
  ultimately show False using close by linarith
qed

theorem debounce_at_most_one_witness:
  "actionAttempt (run (initialState 800 600\<lparr>FlickSensitivity := 1\<rparr>) [Frame (1 / 60)])
         (Tap 1000 1000) = Some 1000
   \<and> actionAttempt
         (run (step (run (initialState 800 600\<lparr>FlickSensitivity := 1\<rparr>) [Frame (1 / 60)])
                 (Tap 1000 1000)) [Frame (1 / 60)])
         (Probability (Some (9 / 10)) 1050 1050) = Some 1050
   \<and> \<bar>1050 - 1000\<bar> < TAP_ACTION_DEBOUNCE_MS
   \<and> proceeds (run (initialState 800 600\<lparr>FlickSensitivity := 1\<rparr>) [Frame (1 / 60)])
         (Tap 1000 1000)
   \<and> \<not> proceeds
         (run (step (run (initialState 800 600\<lparr>FlickSensitivity := 1\<rparr>) [Frame (1 / 60)])
                 (Tap 1000 1000)) [Frame (1 / 60)])
         (Probability (Some (9 / 10)) 1050 1050)"
proof -
  let ?s = "initialState 800 600\<lparr>FlickSensitivity := 1\<rparr>"
  have h1: "actionAttempt (run ?s [Frame (1 / 60)]) (Tap 1000 1000) = Some 1000"
    by simp
  have h2: "actionAttempt (run (step (run ?s [Frame (1 / 60)]) (Tap 1000 1000))
                [Frame (1 / 60)]) (Probability (Some (9 / 10)) 1050 1050) = Some 1050"
    by (simp add: run_def initialState_def useFrame_def tapListener_def
        performThrowOrCatchAction_def TAP_ACTION_DEBOUNCE_MS_def Let_def flickDetected_def
        probabilityThreshold_def clampedFlickSensitivityInternal_def
        flickSensitivityInternal_def FLICK_SENSITIVITY_UI_QUADRATIC_A_def
        FLICK_SENSITIVITY_UI_QUADRATIC_B_def FLICK_SENSITIVITY_EXPONENT_def power_divide)
  have h3: "\<bar>1050 - 1000\<bar> < TAP_ACTION_DEBOUNCE_MS"
    by (simp add: TAP_ACTION_DEBOUNCE_MS_def)
  have p1: "proceeds (run ?s [Frame (1 / 60)]) (Tap 1000 1000)"
    by (simp add: proceeds_def run_def initialState_def useFrame_def TAP_ACTION_DEBOUNCE_MS_def)
  from debounce_at_most_one [OF h1 h2 h3] h1 h2 h3 p1 show ?thesis by blast
qed

section \<open>What an attempt that passes the debounce test does to the clock\<close>

lemma recentSamples_after_debounce [simp]:
  "recentSamples (s\<lparr>lastTapActionTimestamp := a, LastTapTime := b\<rparr>) t = recentSamples s t"
  by (simp add: recentSamples_def)

lemma baseDirection_after_debounce [simp]:
  "baseDirection (s\<lparr>lastTapActionTimestamp := a, LastTapTime := b\<rparr>) recent
     = baseDirection s recent"
  by (simp add: baseDirection_def)

text \<open>
  Claim C10. An attempt that passes the debounce test sets \<^verbatim>\<open>lastTapActionTimestamp\<close> to
  its clock value, whatever it does next. When a throw is pending the attempt is ignored and
  the clock and \<^verbatim>\<open>LastTapTime\<close> are all that change; when the commit gives up for lack of
  a direction the clock is reset all the same. So every attempt less than the debounce time
  after it is debounced and changes nothing.
\<close>

theorem passed_attempt_resets_clock:
  assumes pass: "\<not> now - lastTapActionTimestamp s < TAP_ACTION_DEBOUNCE_MS"
  shows "lastTapActionTimestamp (performThrowOrCatchAction s now t) = now
     \<and> (IsThrowPending s \<longrightarrow>
          performThrowOrCatchAction s now t
            = s\<lparr>lastTapActionTimestamp := now, LastTapTime := Some now\<rparr>)
     \<and> (\<not> IsThrowPending s \<and> \<not> IsThrown s \<and> \<not> ConfigurableLookaheadDelayMs s > 0
          \<and> baseDirection s (recentSamples s t) = None \<longrightarrow>
          performThrowOrCatchAction s now t
            = s\<lparr>lastTapActionTimestamp := now, LastTapTime := Some now, IsThrown := False\<rparr>)
     \<and> (\<forall>now' t'. now' - now < TAP_ACTION_DEBOUNCE_MS \<longrightarrow>
          performThrowOrCatchAction (performThrowOrCatchAction s now t) now' t'
            = performThrowOrCatchAction s now t)"
proof (intro conjI impI allI)
  show l: "lastTapActionTimestamp (performThrowOrCatchAction s now t) = now"
    using pass by (simp add: perform_last)
  show "performThrowOrCatchAction s now t = s\<lparr>lastTapActionTimestamp := now, LastTapTime := Some now\<rparr>"
    if "IsThrowPending s"
    using pass that by (simp add: performThrowOrCatchAction_def Let_def)
  show "performThrowOrCatchAction s now t
            = s\<lparr>lastTapActionTimestamp := now, LastTapTime := Some now, IsThrown := False\<rparr>"
    if "\<not> IsThrowPending s \<and> \<not> IsThrown s \<and> \<not> ConfigurableLookaheadDelayMs s > 0
          \<and> baseDirection s (recentSamples s t) = None"
    using pass that
    by (simp add: performThrowOrCatchAction_def Let_def executeActualThrowLogic_def)
  show "performThrowOrCatchAction (performThrowOrCatchAction s now t) now' t'
            = performThrowOrCatchAction s now t"
    if "now' - now < TAP_ACTION_DEBOUNCE_MS" for now' t'
    using that l by (simp add: performThrowOrCatchAction_def [of "performThrowOrCatchAction s now t"])
qed

theorem passed_attempt_resets_clock_witness:
  "\<not> 1000 - lastTapActionTimestamp (initialState 800 600\<lparr>IsThrowPending := True\<rparr>)
        < TAP_ACTION_DEBOUNCE_MS
   \<and> lastTapActionTimestamp
        (performThrowOrCatchAction (initialState 800 600\<lparr>IsThrowPending := True\<rparr>) 1000 1000) = 1000
   \<and> IsThrowPending (initialState 800 600\<lparr>IsThrowPending := True\<rparr>)
   \<and> performThrowOrCatchAction (initialState 800 600\<lparr>IsThrowPending := True\<rparr>) 1000 1000
        = initialState 800 600\<lparr>IsThrowPending := True, lastTapActionTimestamp := 1000,
            LastTapTime := Some 1000\<rparr>
   \<and> 1090 - 1000 < TAP_ACTION_DEBOUNCE_MS
   \<and> performThrowOrCatchAction
        (performThrowOrCatchAction (initialState 800 600\<lparr>IsThrowPending := True\<rparr>) 1000 1000)
        1090 1090
       = performThrowOrCatchAction (initialState 800 600\<lparr>IsThrowPending := True\<rparr>) 1000 1000"
proof -
  let ?s = "initialState 800 600\<lparr>IsThrowPending := True\<rparr>"
  have h: "\<not> 1000 - lastTapActionTimestamp ?s < TAP_ACTION_DEBOUNCE_MS"
    by (simp add: initialState_def TAP_ACTION_DEBOUNCE_MS_def)
  have p: "IsThrowPending ?s" by simp
  have d: "(1090::real) - 1000 < TAP_ACTION_DEBOUNCE_MS"
    by (simp add: TAP_ACTION_DEBOUNCE_MS_def)
  note inst = passed_attempt_resets_clock [OF h, of 1000]
  from inst have a: "lastTapActionTimestamp (performThrowOrCatchAction ?s 1000 1000) = 1000"
    by blast
  from inst p have b: "performThrowOrCatchAction ?s 1000 1000
      = ?s\<lparr>lastTapActionTimestamp := 1000, LastTapTime := Some 1000\<rparr>"
    by blast
  from inst d have c: "performThrowOrCatchAction (performThrowOrCatchAction ?s 1000 1000) 1090 1090
      = performThrowOrCatchAction ?s 1000 1000"
    by blast
  from h a p b d c show ?thesis by simp
qed

section \<open>A tap while a throw is pending\<close>

text \<open>A tap or flick that reaches the action while a throw is pending is ignored: the test
  of line 234 returns before the catch of line 242.\<close>

lemma pending_tap_ignored:
  "IsThrowPending s \<Longrightarrow>
     IsThrown (performThrowOrCatchAction s now t) = IsThrown s
     \<and> MouseVelocity (performThrowOrCatchAction s now t) = MouseVelocity s
     \<and> IsThrowPending (performThrowOrCatchAction s now t)
     \<and> timeouts (performThrowOrCatchAction s now t) = timeouts s"
  by (simp add: performThrowOrCatchAction_def Let_def)

lemma planThrow_pending:
  "planThrow s recent base = (s', d) \<Longrightarrow>
     IsThrowPending s' = IsThrowPending s \<and> timeouts s' = timeouts s"
  by (auto simp: planThrow_def Let_def split: if_splits)

lemma execute_pending:
  "IsThrowPending (executeActualThrowLogic s t) = IsThrowPending s
     \<and> timeouts (executeActualThrowLogic s t) = timeouts s"
  by (auto simp: executeActualThrowLogic_def split: option.splits prod.splits
      dest: planThrow_pending)

lemma useFrame_pending:
  "IsThrowPending (useFrame s d w h) = IsThrowPending s
     \<and> timeouts (useFrame s d w h) = timeouts s
     \<and> (\<not> IsThrown s \<longrightarrow> \<not> IsThrown (useFrame s d w h))"
  by (simp add: useFrame_def Let_def split: prod.splits)

text \<open>Three facts hold together at every point of every execution from the spawned
  entity: a deferred action waits exactly while the throw is pending, at most one waits, and
  the cursor is never thrown while a throw is pending. Each step keeps them.\<close>

lemma step_pending:
  assumes "IsThrowPending s = (timeouts s \<noteq> [])"
    and "length (timeouts s) \<le> 1"
    and "\<not> (IsThrown s \<and> IsThrowPending s)"
  shows "IsThrowPending (step s ev) = (timeouts (step s ev) \<noteq> [])
     \<and> length (timeouts (step s ev)) \<le> 1
     \<and> \<not> (IsThrown (step s ev) \<and> IsThrowPending (step s ev))"
proof -
  have act: "IsThrowPending (performThrowOrCatchAction s' now t)
        = (timeouts (performThrowOrCatchAction s' now t) \<noteq> [])
      \<and> length (timeouts (performThrowOrCatchAction s' now t)) \<le> 1
      \<and> \<not> (IsThrown (performThrowOrCatchAction s' now t)
            \<and> IsThrowPending (performThrowOrCatchAction s' now t))"
    if "IsThrowPending s' = (timeouts s' \<noteq> [])" "length (timeouts s') \<le> 1"
      "\<not> (IsThrown s' \<and> IsThrowPending s')" for s' now t
    using that by (auto simp: performThrowOrCatchAction_def Let_def execute_pending)
  show ?thesis
  proof (cases ev)
    case (Tap now t)
    show ?thesis
      unfolding Tap step.simps tapListener_def by (rule act [OF assms])
  next
    case (Probability tapEntry now t)
    let ?s1 = "s\<lparr>GestureProb := tapEntry\<rparr>"
    have "IsThrowPending ?s1 = (timeouts ?s1 \<noteq> [])" "length (timeouts ?s1) \<le> 1"
      "\<not> (IsThrown ?s1 \<and> IsThrowPending ?s1)"
      using assms by simp_all
    note inner = act [OF this, of now t]
    show ?thesis
    proof (cases "flickDetected (FlickSensitivity ?s1) tapEntry")
      case True
      then have e: "step s ev = performThrowOrCatchAction ?s1 now t"
        using Probability by (simp add: probabilityListener_def Let_def)
      show ?thesis unfolding e by (rule inner)
    next
      case False
      then have "step s ev = ?s1"
        using Probability by (simp add: probabilityListener_def Let_def)
      then show ?thesis using assms by simp
    qed
  next
    case (ArmDirectionChanged eventData pushed now)
    with assms show ?thesis
      by (simp add: armDirectionListener_def split: option.splits prod.splits)
  next
    case (Frame delta)
    with assms useFrame_pending [of s delta "window_innerWidth s" "window_innerHeight s"]
    show ?thesis by auto
  next
    case Timeout
    with assms show ?thesis
      by (cases "timeouts s")
         (auto simp: fireTimeout_def timeoutCallback_def execute_pending)
  next
    case (Resize newWidth newHeight)
    with assms show ?thesis by (simp add: handleResize_def)
  qed
qed

lemma run_pending:
  "IsThrowPending (run (initialState w h) evs) = (timeouts (run (initialState w h) evs) \<noteq> [])
   \<and> length (timeouts (run (initialState w h) evs)) \<le> 1
   \<and> \<not> (IsThrown (run (initialState w h) evs) \<and> IsThrowPending (run (initialState w h) evs))"
proof (induction evs rule: rev_induct)
  case Nil
  show ?case by (simp add: run_def initialState_def)
next
  case (snoc ev evs)
  have eq: "run (initialState w h) (evs @ [ev]) = step (run (initialState w h) evs) ev"
    by (simp add: run_def)
  show ?case
    unfolding eq by (rule step_pending) (use snoc.IH in blast)+
qed

section \<open>The sample history\<close>

text \<open>Only \<^verbatim>\<open>armDirectionListener\<close> writes the history.\<close>

lemma planThrow_history:
  "planThrow s recent base = (s', d) \<Longrightarrow> ArmDirectionHistory s' = ArmDirectionHistory s"
  by (auto simp: planThrow_def Let_def split: if_splits)

lemma execute_history:
  "ArmDirectionHistory (executeActualThrowLogic s t) = ArmDirectionHistory s"
  by (auto simp: executeActualThrowLogic_def planThrow_history split: option.splits prod.splits)

lemma perform_history:
  "ArmDirectionHistory (performThrowOrCatchAction s now t) = ArmDirectionHistory s"
  by (simp add: performThrowOrCatchAction_def Let_def execute_history)

lemma fireTimeout_history:
  "ArmDirectionHistory (fireTimeout s) = ArmDirectionHistory s"
  by (simp add: fireTimeout_def timeoutCallback_def execute_history split: list.splits)

lemma useFrame_history:
  "ArmDirectionHistory (useFrame s d w h) = ArmDirectionHistory s"
  by (simp add: useFrame_def Let_def split: prod.splits)

lemma probabilityListener_history:
  "ArmDirectionHistory (probabilityListener s e now t) = ArmDirectionHistory s"
  by (simp add: probabilityListener_def Let_def perform_history)

lemma step_history:
  "\<not> recordsSample ev \<Longrightarrow> ArmDirectionHistory (step s ev) = ArmDirectionHistory s"
  by (cases ev rule: recordsSample.cases)
     (simp_all add: tapListener_def perform_history probabilityListener_history
        armDirectionListener_def useFrame_history fireTimeout_history handleResize_def)

lemma run_history:
  "\<forall>ev \<in> set evs. \<not> recordsSample ev \<Longrightarrow>
     ArmDirectionHistory (run s evs) = ArmDirectionHistory s"
  by (induction evs arbitrary: s) (simp_all add: run_def step_history)

lemma recorded_history_young:
  "sm \<in> set (ArmDirectionHistory (armDirectionListener s (Some d) pushed now)) \<Longrightarrow>
     now - timestamp sm \<le> ARM_DIRECTION_HISTORY_MAX_AGE_MS"
  by (cases d) (auto simp: armDirectionListener_def split: if_splits)

text \<open>
  Claim C8 as stated fails: the history is pruned when a sample is recorded, not when it is
  queried. With a throw window of 300 ms and no lookahead, a sample recorded at time 0 is
  still in the history at time 250, the commit of a tap at 250 queries it, and its age then
  is 250 ms, above the maximum age of 200 ms.
\<close>

theorem query_age_counterexample:
  "recentSamples
     (run (initialState 800 600\<lparr>ConfigurableThrowWindowMs := 300, ConfigurableLookaheadDelayMs := 0\<rparr>)
        [ArmDirectionChanged (Some (1, 0)) 0 0]) 250
     = [\<lparr>dx = 1, dy = 0, timestamp = 0\<rparr>]
   \<and> \<not> 250 - timestamp \<lparr>dx = 1, dy = 0, timestamp = 0\<rparr> \<le> ARM_DIRECTION_HISTORY_MAX_AGE_MS
   \<and> IsThrown (run (initialState 800 600\<lparr>ConfigurableThrowWindowMs := 300, ConfigurableLookaheadDelayMs := 0\<rparr>)
        [ArmDirectionChanged (Some (1, 0)) 0 0, Tap 250 250])"
  by (simp add: run_def initialState_def armDirectionListener_def recentSamples_def
      ARM_DIRECTION_HISTORY_MAX_AGE_MS_def tapListener_def performThrowOrCatchAction_def
      TAP_ACTION_DEBOUNCE_MS_def Let_def executeActualThrowLogic_def baseDirection_def
      averageDirection_def planThrow_def)

text \<open>
  Claim C8, amended. In every execution, after the last recorded sample (recorded with the
  clock at \<open>now\<close>) and any number of later events that record none, every sample that a
  query returns is at most the maximum age older than \<open>now\<close>, the time of that last record,
  and lies in the window of the query. Its age at the time of the query is not bounded by the
  maximum age.
\<close>

theorem query_age_at_last_record:
  assumes later: "\<forall>ev \<in> set later. \<not> recordsSample ev"
    and sm: "sm \<in> set (recentSamples
               (run s (earlier @ [ArmDirectionChanged (Some d) pushed now] @ later)) tapTimestamp)"
  shows "now - timestamp sm \<le> ARM_DIRECTION_HISTORY_MAX_AGE_MS
     \<and> tapTimestamp - ConfigurableThrowWindowMs
          (run s (earlier @ [ArmDirectionChanged (Some d) pushed now] @ later)) \<le> timestamp sm
     \<and> timestamp sm \<le> tapTimestamp + ConfigurableLookaheadDelayMs
          (run s (earlier @ [ArmDirectionChanged (Some d) pushed now] @ later))"
proof -
  let ?s1 = "run s earlier"
  let ?s2 = "armDirectionListener ?s1 (Some d) pushed now"
  let ?s3 = "run s (earlier @ [ArmDirectionChanged (Some d) pushed now] @ later)"
  have "?s3 = run ?s2 later"
    by (simp add: run_def)
  then have "ArmDirectionHistory ?s3 = ArmDirectionHistory ?s2"
    using later by (simp add: run_history)
  with sm have "sm \<in> set (ArmDirectionHistory ?s2)"
    by (simp add: recentSamples_def)
  then have "now - timestamp sm \<le> ARM_DIRECTION_HISTORY_MAX_AGE_MS"
    by (rule recorded_history_young)
  moreover from sm have "tapTimestamp - ConfigurableThrowWindowMs ?s3 \<le> timestamp sm
      \<and> timestamp sm \<le> tapTimestamp + ConfigurableLookaheadDelayMs ?s3"
    by (simp add: recentSamples_def)
  ultimately show ?thesis by blast
qed

theorem query_age_at_last_record_witness:
  "\<not> recordsSample (Frame (1 / 60))
   \<and> \<lparr>dx = 1, dy = 0, timestamp = 990\<rparr> \<in> set (recentSamples
        (run (initialState 800 600)
           ([ArmDirectionChanged (Some (0, 1)) 700 700]
            @ [ArmDirectionChanged (Some (1, 0)) 990 990] @ [Frame (1 / 60)])) 1000)
   \<and> 990 - timestamp \<lparr>dx = 1, dy = 0, timestamp = 990\<rparr> \<le> ARM_DIRECTION_HISTORY_MAX_AGE_MS"
proof -
  have l: "\<forall>ev \<in> set [Frame (1 / 60)]. \<not> recordsSample ev" by simp
  have m: "\<lparr>dx = 1, dy = 0, timestamp = 990\<rparr> \<in> set (recentSamples
        (run (initialState 800 600)
           ([ArmDirectionChanged (Some (0, 1)) 700 700]
            @ [ArmDirectionChanged (Some (1, 0)) 990 990] @ [Frame (1 / 60)])) 1000)"
    by (simp add: run_def initialState_def armDirectionListener_def useFrame_def
        recentSamples_def ARM_DIRECTION_HISTORY_MAX_AGE_MS_def)
  from query_age_at_last_record [OF l m] l m show ?thesis by simp
qed

section \<open>The flick classifier\<close>

text \<open>The two coefficients are the doubles nearest to \<open>-1.8\<close> and \<open>2.8\<close>: each is within
  half a unit in the last place of its literal (\<open>2\<^sup>-\<^sup>5\<^sup>3\<close> for a double in \<open>[1, 2)\<close>, \<open>2\<^sup>-\<^sup>5\<^sup>2\<close>
  for one in \<open>[2, 4)\<close>).\<close>

lemma coefficients:
  "FLICK_SENSITIVITY_UI_QUADRATIC_A = - (9 / 5) - 1 / (5 * 2 ^ 52)"
  "FLICK_SENSITIVITY_UI_QUADRATIC_B = 14 / 5 - 4 / (5 * 2 ^ 52)"
  by (simp_all add: FLICK_SENSITIVITY_UI_QUADRATIC_A_def FLICK_SENSITIVITY_UI_QUADRATIC_B_def)

lemma coefficients_nearest:
  "\<bar>FLICK_SENSITIVITY_UI_QUADRATIC_A - (- (18 / 10))\<bar> \<le> 1 / 2 ^ 53"
  "\<bar>FLICK_SENSITIVITY_UI_QUADRATIC_B - 28 / 10\<bar> \<le> 1 / 2 ^ 52"
  by (simp_all add: FLICK_SENSITIVITY_UI_QUADRATIC_A_def FLICK_SENSITIVITY_UI_QUADRATIC_B_def)

lemma clamped_range:
  "0 \<le> clampedFlickSensitivityInternal u \<and> clampedFlickSensitivityInternal u \<le> 1"
  by (simp add: clampedFlickSensitivityInternal_def)

text \<open>The quadratic with coefficients \<open>-(9/5 + e)\<close> and \<open>14/5 - 4e\<close>, for a small \<open>e\<close>, rises
  on \<open>[0, 3/5]\<close> and is at least 1 on \<open>[3/5, 19/20]\<close>, where the clamp holds it at 1.\<close>

lemma quadratic_rising:
  fixes e a b :: real
  assumes "0 \<le> e" "e \<le> 1 / 10" "0 \<le> a" "a \<le> b" "b \<le> 3 / 5"
  shows "(- (9 / 5) - e) * a\<^sup>2 + (14 / 5 - 4 * e) * a
      \<le> (- (9 / 5) - e) * b\<^sup>2 + (14 / 5 - 4 * e) * b"
proof -
  have "(9 / 5 + e) * (a + b) \<le> (19 / 10) * (6 / 5)"
    using assms by (intro mult_mono) simp_all
  then have "0 \<le> (14 / 5 - 4 * e) - (9 / 5 + e) * (a + b)"
    using assms by simp
  then have "0 \<le> (b - a) * ((14 / 5 - 4 * e) - (9 / 5 + e) * (a + b))"
    using assms by (intro mult_nonneg_nonneg) simp_all
  moreover have "((- (9 / 5) - e) * b\<^sup>2 + (14 / 5 - 4 * e) * b)
        - ((- (9 / 5) - e) * a\<^sup>2 + (14 / 5 - 4 * e) * a)
      = (b - a) * ((14 / 5 - 4 * e) - (9 / 5 + e) * (a + b))"
    by algebra
  ultimately show ?thesis by simp
qed

lemma quadratic_saturated:
  fixes e b :: real
  assumes "0 \<le> e" "e \<le> 1 / 1000" "3 / 5 \<le> b" "b \<le> 19 / 20"
  shows "1 \<le> (- (9 / 5) - e) * b\<^sup>2 + (14 / 5 - 4 * e) * b"
proof -
  have id: "(- (9 / 5) - e) * b\<^sup>2 + (14 / 5 - 4 * e) * b - 1
      = 4 / 125 + 9 / 5 * ((b - 3 / 5) * (43 / 45 - b)) - e * (b\<^sup>2 + 4 * b)"
    by algebra
  have "0 \<le> (b - 3 / 5) * (43 / 45 - b)"
    using assms by (intro mult_nonneg_nonneg) simp_all
  then have hill: "0 \<le> 9 / 5 * ((b - 3 / 5) * (43 / 45 - b))"
    by simp
  have "b\<^sup>2 \<le> 1"
    using assms by (simp add: power_le_one)
  then have "0 \<le> b\<^sup>2 + 4 * b" "b\<^sup>2 + 4 * b \<le> 5"
    using assms by simp_all
  then have "e * (b\<^sup>2 + 4 * b) \<le> (1 / 1000) * 5"
    using assms by (intro mult_mono) simp_all
  with hill have "0 \<le> 4 / 125 + 9 / 5 * ((b - 3 / 5) * (43 / 45 - b)) - e * (b\<^sup>2 + 4 * b)"
    by simp
  with id show ?thesis by simp
qed

lemma clamped_mono:
  assumes "0 \<le> a" "a \<le> b" "b \<le> 19 / 20"
  shows "clampedFlickSensitivityInternal a \<le> clampedFlickSensitivityInternal b"
proof -
  define e :: real where "e = 1 / (5 * 2 ^ 52)"
  have e: "0 \<le> e" "e \<le> 1 / 1000" "e \<le> 1 / 10"
    by (simp_all add: e_def)
  have q: "flickSensitivityInternal u = (- (9 / 5) - e) * u\<^sup>2 + (14 / 5 - 4 * e) * u" for u
    by (simp add: flickSensitivityInternal_def coefficients e_def)
  show ?thesis
  proof (cases "b \<le> 3 / 5")
    case True
    with assms e have "flickSensitivityInternal a \<le> flickSensitivityInternal b"
      unfolding q by (intro quadratic_rising)
    then show ?thesis by (simp add: clampedFlickSensitivityInternal_def)
  next
    case False
    with assms e have "1 \<le> flickSensitivityInternal b"
      unfolding q by (intro quadratic_saturated) simp_all
    then have "clampedFlickSensitivityInternal b = 1"
      by (simp add: clampedFlickSensitivityInternal_def)
    then show ?thesis using clamped_range [of a] by simp
  qed
qed

text \<open>
  Claim C9 as stated fails in two places. At sensitivity 0 the internal sensitivity is 0
  and the threshold is 1, a tap probability of 1 reaches it, and the listener still does
  not fire, because it tests the sensitivity first. And the remapping is not monotonic up to
  the slider's maximum: at sensitivity 0.75 the quadratic is above 1 and the clamp gives 1,
  but at sensitivity 1 the two coefficients add up to \<open>1 - 2\<^sup>-\<^sup>5\<^sup>2\<close>, below 1 (there every
  operation of lines 315-316 is exact in doubles, so this is the code's value).
\<close>

theorem flick_at_zero_counterexample:
  "clampedFlickSensitivityInternal 0 = 0
   \<and> 1 \<ge> (1 - clampedFlickSensitivityInternal 0) ^ FLICK_SENSITIVITY_EXPONENT
   \<and> \<not> flickDetected 0 (Some 1)
   \<and> (3 / 4 :: real) \<le> 1
   \<and> clampedFlickSensitivityInternal (3 / 4) = 1
   \<and> clampedFlickSensitivityInternal 1 = 1 - 1 / 2 ^ 52
   \<and> \<not> clampedFlickSensitivityInternal (3 / 4) \<le> clampedFlickSensitivityInternal 1"
proof -
  have z: "clampedFlickSensitivityInternal 0 = 0"
    by (simp add: clampedFlickSensitivityInternal_def flickSensitivityInternal_def)
  have n: "\<not> flickDetected 0 (Some 1)"
    by (simp add: flickDetected_def)
  have m: "clampedFlickSensitivityInternal (3 / 4) = 1"
    by (simp add: clampedFlickSensitivityInternal_def flickSensitivityInternal_def
        coefficients power2_eq_square)
  have t: "clampedFlickSensitivityInternal 1 = 1 - 1 / 2 ^ 52"
    by (simp add: clampedFlickSensitivityInternal_def flickSensitivityInternal_def
        coefficients)
  from z n m t show ?thesis by simp
qed

text \<open>
  Claim C9, amended. For every sensitivity above 0 and every tap probability, the classifier
  fires exactly when the probability is at least \<open>(1 - internal) ^ exponent\<close>; the internal
  sensitivity is the clamped quadratic of the sensitivity, which lies in \<open>[0, 1]\<close> and is
  monotonic on \<open>[0, 0.95]\<close>, every value the slider offers below its maximum; a missing tap
  probability counts as 0. At sensitivity 0 (or below) the classifier never fires, whatever
  the probability, also when the probability reaches the threshold 1.
\<close>

theorem flick_classifier:
  "(0 < u \<longrightarrow>
      (flickDetected u (Some p)
         \<longleftrightarrow> p \<ge> (1 - clampedFlickSensitivityInternal u) ^ FLICK_SENSITIVITY_EXPONENT)
      \<and> flickDetected u None = flickDetected u (Some 0))
   \<and> clampedFlickSensitivityInternal u
        = max 0 (min 1 (FLICK_SENSITIVITY_UI_QUADRATIC_A * u ^ 2
                          + FLICK_SENSITIVITY_UI_QUADRATIC_B * u))
   \<and> 0 \<le> clampedFlickSensitivityInternal u \<and> clampedFlickSensitivityInternal u \<le> 1
   \<and> (0 \<le> a \<and> a \<le> b \<and> b \<le> 19 / 20 \<longrightarrow>
        clampedFlickSensitivityInternal a \<le> clampedFlickSensitivityInternal b)
   \<and> (u \<le> 0 \<longrightarrow> \<not> flickDetected u (Some p) \<and> \<not> flickDetected u None)"
  using clamped_range [of u] clamped_mono [of a b]
  by (simp add: flickDetected_def probabilityThreshold_def clampedFlickSensitivityInternal_def
      flickSensitivityInternal_def)

theorem flick_classifier_witness:
  "(0::real) < 1 / 2
   \<and> flickDetected (1 / 2) (Some (1 / 1000))
   \<and> \<not> flickDetected (1 / 2) (Some (1 / 10000))
   \<and> clampedFlickSensitivityInternal (1 / 4) \<le> clampedFlickSensitivityInternal (1 / 2)
   \<and> \<not> flickDetected 0 (Some 1)"
proof -
  have c: "clampedFlickSensitivityInternal (1 / 2) = 19 / 20 - 9 / (20 * 2 ^ 52)"
    by (simp add: clampedFlickSensitivityInternal_def flickSensitivityInternal_def
        coefficients power2_eq_square)
  have t: "(1 - (19 / 20 - 9 / (20 * 2 ^ 52)) :: real) ^ FLICK_SENSITIVITY_EXPONENT \<le> 1 / 1000"
    "\<not> (1 - (19 / 20 - 9 / (20 * 2 ^ 52)) :: real) ^ FLICK_SENSITIVITY_EXPONENT \<le> 1 / 10000"
    by (simp_all add: FLICK_SENSITIVITY_EXPONENT_def power3_eq_cube)
  from flick_classifier [of "1 / 2" "1 / 1000"] t
  have f1: "flickDetected (1 / 2) (Some (1 / 1000))" unfolding c by simp
  from flick_classifier [of "1 / 2" "1 / 10000"] t
  have f2: "\<not> flickDetected (1 / 2) (Some (1 / 10000))" unfolding c by simp
  have "(0::real) \<le> 1 / 4 \<and> (1 / 4 :: real) \<le> 1 / 2 \<and> (1 / 2 :: real) \<le> 19 / 20"
    by simp
  with flick_classifier [of 0 0 "1 / 4" "1 / 2"]
  have m: "clampedFlickSensitivityInternal (1 / 4) \<le> clampedFlickSensitivityInternal (1 / 2)"
    by blast
  from flick_classifier [of 0 1]
  have z: "\<not> flickDetected 0 (Some 1)" by simp
  from f1 f2 m z show ?thesis by simp
qed

section \<open>The velocity of a committed throw\<close>

lemma foldl_plus_sum_list:
  "foldl (\<lambda>acc sm. acc + f sm) z xs = z + sum_list (map f xs)" for z :: real
  by (induction xs arbitrary: z) simp_all

lemma averageDirection_spec: "averageDirection recent = spec_average recent"
  by (simp add: averageDirection_def spec_average_def foldl_plus_sum_list)

lemma build_no_usable: "find usable xs = None \<Longrightarrow> buildPathSegments xs = []"
  by (induction xs) (simp_all add: usable_def magnitude_def Let_def split: if_splits)

lemma build_first_usable:
  "find usable xs = Some c \<Longrightarrow>
     buildPathSegments xs \<noteq> []
     \<and> seg_dx (hd (buildPathSegments xs)) = dx c / magnitude c
     \<and> seg_dy (hd (buildPathSegments xs)) = dy c / magnitude c"
  by (induction xs) (auto simp: usable_def magnitude_def Let_def split: if_splits)

lemma execute_committed:
  assumes "\<not> IsThrown s" "baseDirection s (recentSamples s t) = Some base"
  shows "IsThrown (executeActualThrowLogic s t)
     \<and> MouseVelocity (executeActualThrowLogic s t)
         = \<lparr>vx = fst (snd (planThrow s (recentSamples s t) base)) * ConfigurableThrowStrength s,
            vy = snd (snd (planThrow s (recentSamples s t) base)) * ConfigurableThrowStrength s\<rparr>"
  using assms by (simp add: executeActualThrowLogic_def split: prod.splits)

text \<open>
  Claim C1 as stated fails when curveball mode is on. One sample \<open>(2, 0)\<close> is in the window;
  the average times the strength 500 is \<open>(1000, 0)\<close>, but the commit throws along the plan's
  first segment, the unit vector \<open>(1, 0)\<close>, with velocity \<open>(500, 0)\<close>.
\<close>

theorem commit_velocity_counterexample:
  "\<not> IsThrown (initialState 800 600
        \<lparr>ArmDirectionHistory := [\<lparr>dx = 2, dy = 0, timestamp = 0\<rparr>],
         ConfigurableThrowStrength := 500, ConfigurableLookaheadDelayMs := 0,
         EnableCurveball := True\<rparr>)
   \<and> recentSamples (initialState 800 600
        \<lparr>ArmDirectionHistory := [\<lparr>dx = 2, dy = 0, timestamp = 0\<rparr>],
         ConfigurableThrowStrength := 500, ConfigurableLookaheadDelayMs := 0,
         EnableCurveball := True\<rparr>) 10 = [\<lparr>dx = 2, dy = 0, timestamp = 0\<rparr>]
   \<and> spec_average [\<lparr>dx = 2, dy = 0, timestamp = 0\<rparr>] = (2, 0)
   \<and> MouseVelocity (executeActualThrowLogic (initialState 800 600
        \<lparr>ArmDirectionHistory := [\<lparr>dx = 2, dy = 0, timestamp = 0\<rparr>],
         ConfigurableThrowStrength := 500, ConfigurableLookaheadDelayMs := 0,
         EnableCurveball := True\<rparr>) 10) = \<lparr>vx = 500, vy = 0\<rparr>"
  by (simp add: initialState_def recentSamples_def spec_average_def executeActualThrowLogic_def
      baseDirection_def planThrow_def Let_def)

text \<open>
  Claim C1, amended. Take a throw that commits from Idle with at least one history sample
  inside the window and a direction that is not the zero vector. The state becomes Flying.
  With curveball mode off, or with no in-window sample of magnitude above 0.001, the
  velocity is the component-wise average of the in-window samples' directions times the
  throw strength. With curveball mode on and such a sample, the velocity is the unit
  direction of the earliest one (in timestamp order) times the throw strength. In the
  scenario of the claim (history \<open>[(1, 0)]\<close> at time 0, window 50, no lookahead, strength
  500, tap at 10) the velocity is exactly \<open>(500, 0)\<close> in either mode.
\<close>

theorem commit_velocity:
  assumes idle: "\<not> IsThrown s"
    and some: "recentSamples s tapTimestamp \<noteq> []"
    and nonzero: "(EnableCurveball s
                   \<and> find usable (sort_key timestamp (recentSamples s tapTimestamp)) \<noteq> None)
                  \<or> spec_average (recentSamples s tapTimestamp) \<noteq> (0, 0)"
  shows "IsThrown (executeActualThrowLogic s tapTimestamp)
     \<and> MouseVelocity (executeActualThrowLogic s tapTimestamp)
         = (case (if EnableCurveball s
                  then find usable (sort_key timestamp (recentSamples s tapTimestamp))
                  else None) of
              None \<Rightarrow>
                \<lparr>vx = fst (spec_average (recentSamples s tapTimestamp)) * ConfigurableThrowStrength s,
                 vy = snd (spec_average (recentSamples s tapTimestamp)) * ConfigurableThrowStrength s\<rparr>
            | Some c \<Rightarrow>
                \<lparr>vx = dx c / magnitude c * ConfigurableThrowStrength s,
                 vy = dy c / magnitude c * ConfigurableThrowStrength s\<rparr>)
     \<and> (ArmDirectionHistory s = [\<lparr>dx = 1, dy = 0, timestamp = 0\<rparr>]
          \<and> ConfigurableThrowWindowMs s = 50 \<and> ConfigurableLookaheadDelayMs s = 0
          \<and> ConfigurableThrowStrength s = 500 \<and> tapTimestamp = 10
          \<longrightarrow> MouseVelocity (executeActualThrowLogic s tapTimestamp) = \<lparr>vx = 500, vy = 0\<rparr>)"
proof -
  let ?recent = "recentSamples s tapTimestamp"
  let ?sorted = "sort_key timestamp ?recent"
  let ?k = "ConfigurableThrowStrength s"
  let ?s' = "executeActualThrowLogic s tapTimestamp"
  have base: "baseDirection s ?recent = Some (spec_average ?recent)"
    using some by (simp add: baseDirection_def averageDirection_spec)
  note committed = execute_committed [OF idle base]
  have flying: "IsThrown ?s'"
    using committed by blast
  have vel: "MouseVelocity ?s'
      = (case (if EnableCurveball s then find usable ?sorted else None) of
           None \<Rightarrow> \<lparr>vx = fst (spec_average ?recent) * ?k, vy = snd (spec_average ?recent) * ?k\<rparr>
         | Some c \<Rightarrow> \<lparr>vx = dx c / magnitude c * ?k, vy = dy c / magnitude c * ?k\<rparr>)"
  proof (cases "EnableCurveball s")
    case False
    then show ?thesis
      using committed by (simp add: planThrow_def)
  next
    case True
    show ?thesis
    proof (cases "find usable ?sorted")
      case None
      then have "buildPathSegments ?sorted = []"
        by (rule build_no_usable)
      then show ?thesis
        using committed True None by (simp add: planThrow_def Let_def)
    next
      case (Some c)
      from build_first_usable [OF Some] show ?thesis
        using committed True Some some by (simp add: planThrow_def Let_def)
    qed
  qed
  have scenario: "MouseVelocity ?s' = \<lparr>vx = 500, vy = 0\<rparr>"
    if h: "ArmDirectionHistory s = [\<lparr>dx = 1, dy = 0, timestamp = 0\<rparr>]
          \<and> ConfigurableThrowWindowMs s = 50 \<and> ConfigurableLookaheadDelayMs s = 0
          \<and> ConfigurableThrowStrength s = 500 \<and> tapTimestamp = 10"
  proof -
    from h have r: "?recent = [\<lparr>dx = 1, dy = 0, timestamp = 0\<rparr>]"
      by (simp add: recentSamples_def)
    show ?thesis
      unfolding vel r using h
      by (simp add: spec_average_def usable_def magnitude_def)
  qed
  from flying vel scenario show ?thesis by blast
qed

theorem commit_velocity_witness:
  "\<not> IsThrown (initialState 800 600
        \<lparr>ArmDirectionHistory := [\<lparr>dx = 1, dy = 0, timestamp = 0\<rparr>],
         ConfigurableThrowStrength := 500, ConfigurableLookaheadDelayMs := 0\<rparr>)
   \<and> recentSamples (initialState 800 600
        \<lparr>ArmDirectionHistory := [\<lparr>dx = 1, dy = 0, timestamp = 0\<rparr>],
         ConfigurableThrowStrength := 500, ConfigurableLookaheadDelayMs := 0\<rparr>) 10 \<noteq> []
   \<and> spec_average (recentSamples (initialState 800 600
        \<lparr>ArmDirectionHistory := [\<lparr>dx = 1, dy = 0, timestamp = 0\<rparr>],
         ConfigurableThrowStrength := 500, ConfigurableLookaheadDelayMs := 0\<rparr>) 10) = (1, 0)
   \<and> IsThrown (executeActualThrowLogic (initialState 800 600
        \<lparr>ArmDirectionHistory := [\<lparr>dx = 1, dy = 0, timestamp = 0\<rparr>],
         ConfigurableThrowStrength := 500, ConfigurableLookaheadDelayMs := 0\<rparr>) 10)
   \<and> MouseVelocity (executeActualThrowLogic (initialState 800 600
        \<lparr>ArmDirectionHistory := [\<lparr>dx = 1, dy = 0, timestamp = 0\<rparr>],
         ConfigurableThrowStrength := 500, ConfigurableLookaheadDelayMs := 0\<rparr>) 10)
       = \<lparr>vx = 500, vy = 0\<rparr>"
proof -
  let ?s = "initialState 800 600
        \<lparr>ArmDirectionHistory := [\<lparr>dx = 1, dy = 0, timestamp = 0\<rparr>],
         ConfigurableThrowStrength := 500, ConfigurableLookaheadDelayMs := 0\<rparr>"
  have i: "\<not> IsThrown ?s" by (simp add: initialState_def)
  have r: "recentSamples ?s 10 \<noteq> []" by (simp add: initialState_def recentSamples_def)
  have c: "ArmDirectionHistory ?s = [\<lparr>dx = 1, dy = 0, timestamp = 0\<rparr>]
          \<and> ConfigurableThrowWindowMs ?s = 50 \<and> ConfigurableLookaheadDelayMs ?s = 0
          \<and> ConfigurableThrowStrength ?s = 500 \<and> (10::real) = 10"
    by (simp add: initialState_def)
  have a: "spec_average (recentSamples ?s 10) = (1, 0)"
    by (simp add: initialState_def recentSamples_def spec_average_def)
  then have n: "(EnableCurveball ?s
                   \<and> find usable (sort_key timestamp (recentSamples ?s 10)) \<noteq> None)
                  \<or> spec_average (recentSamples ?s 10) \<noteq> (0, 0)"
    by simp
  from commit_velocity [OF i r n] c
  have "IsThrown (executeActualThrowLogic ?s 10)
      \<and> MouseVelocity (executeActualThrowLogic ?s 10) = \<lparr>vx = 500, vy = 0\<rparr>"
    by blast
  with i r a show ?thesis by blast
qed

section \<open>A zero direction\<close>

text \<open>The earlier version of the commit stops at a zero direction: the cursor stays Idle
  with zero velocity.\<close>

lemma zero_direction_aborts_v0:
  assumes "\<not> IsThrown s" "baseDirection s (recentSamples s t) = Some (0, 0)"
  shows "\<not> IsThrown (executeActualThrowLogic_v0 s t)
     \<and> MouseVelocity (executeActualThrowLogic_v0 s t) = zeroVector"
  using assms by (simp add: executeActualThrowLogic_v0_def)

text \<open>
  Claim C2 does not hold of the current commit, which has lost the test for a zero
  direction that the earlier versions in the repository make. With every setting at its
  default, the watch reports the arm direction \<open>(0, 0)\<close> at 990, a tap comes at 1000 and the
  deferred action runs: the direction of the throw is the zero vector, and the cursor is
  Flying with velocity \<open>(0, 0)\<close>. The earlier commit leaves the same state Idle.
\<close>

theorem zero_direction_is_thrown:
  "baseDirection (run (initialState 800 600) [ArmDirectionChanged (Some (0, 0)) 990 990])
       (recentSamples (run (initialState 800 600) [ArmDirectionChanged (Some (0, 0)) 990 990]) 1000)
     = Some (0, 0)
   \<and> IsThrown (run (initialState 800 600)
        [ArmDirectionChanged (Some (0, 0)) 990 990, Tap 1000 1000, Timeout])
   \<and> MouseVelocity (run (initialState 800 600)
        [ArmDirectionChanged (Some (0, 0)) 990 990, Tap 1000 1000, Timeout]) = \<lparr>vx = 0, vy = 0\<rparr>
   \<and> \<not> IsThrown (executeActualThrowLogic_v0
        (run (initialState 800 600) [ArmDirectionChanged (Some (0, 0)) 990 990]) 1000)"
  by (simp add: run_def initialState_def armDirectionListener_def
      ARM_DIRECTION_HISTORY_MAX_AGE_MS_def tapListener_def performThrowOrCatchAction_def
      TAP_ACTION_DEBOUNCE_MS_def Let_def fireTimeout_def timeoutCallback_def
      executeActualThrowLogic_def executeActualThrowLogic_v0_def recentSamples_def
      baseDirection_def averageDirection_def planThrow_def)

section \<open>The walls\<close>



lemma useFrame_position:
  "IsThrown s \<Longrightarrow>
     MousePosition (useFrame s delta w h)
       = \<lparr>vx = fst (clampAxis w (vx (MousePosition s) + vx (MouseVelocity s) * delta,
                                 fst (fst (frameVelocity s delta)))),
          vy = fst (clampAxis h (vy (MousePosition s) + vy (MouseVelocity s) * delta,
                                 snd (fst (frameVelocity s delta))))\<rparr>"
  by (simp add: useFrame_def Let_def split: prod.splits)

lemma useFrame_velocity:
  "IsThrown s \<Longrightarrow>
     MouseVelocity (useFrame s delta w h)
       = \<lparr>vx = snd (clampAxis w (vx (MousePosition s) + vx (MouseVelocity s) * delta,
                                 fst (fst (frameVelocity s delta)))),
          vy = snd (clampAxis h (vy (MousePosition s) + vy (MouseVelocity s) * delta,
                                 snd (fst (frameVelocity s delta))))\<rparr>"
  by (simp add: useFrame_def Let_def split: prod.splits)

lemma useFrame_thrown:
  "IsThrown s \<Longrightarrow> IsThrown (useFrame s delta w h) = fst (snd (frameVelocity s delta))"
  by (simp add: useFrame_def Let_def split: prod.splits)




section \<open>Friction\<close>

lemma friction_range:
  "14 / 10 \<le> dynamicFrictionFactor v \<and> dynamicFrictionFactor v \<le> 6"
proof -
  have mid: "14 / 10 \<le> 6 + (14 / 10 - 6) * ((v - 5) / (300 - 5))
      \<and> 6 + (14 / 10 - 6) * ((v - 5) / (300 - 5)) \<le> 6" if "5 < v" "v < 300"
    using that by (simp add: field_simps)
  show ?thesis
    using mid
    by (simp add: dynamicFrictionFactor_def MIN_THROW_SPEED_THRESHOLD_def
        FRICTION_FACTOR_LOW_SPEED_def FRICTION_FACTOR_HIGH_SPEED_def
        FRICTION_TRANSITION_MAX_SPEED_def Let_def)
qed

lemma friction_short_frame:
  assumes "0 < delta" "delta < 1 / 3"
  shows "0 < dynamicFrictionFactor v * delta \<and> dynamicFrictionFactor v * delta < 2"
proof -
  from friction_range [of v] have f: "0 < dynamicFrictionFactor v" "dynamicFrictionFactor v \<le> 6"
    by simp_all
  then have "dynamicFrictionFactor v * delta \<le> 6 * delta"
    using assms by (intro mult_right_mono) simp_all
  moreover have "0 < dynamicFrictionFactor v * delta"
    using f assms by (intro mult_pos_pos) simp_all
  ultimately show ?thesis using assms by linarith
qed

lemma norm_scaled: "sqrt ((a * k)\<^sup>2 + (b * k)\<^sup>2) = \<bar>k\<bar> * sqrt (a\<^sup>2 + b\<^sup>2)"
proof -
  have "(a * k)\<^sup>2 + (b * k)\<^sup>2 = k\<^sup>2 * (a\<^sup>2 + b\<^sup>2)"
    by (simp add: power2_eq_square algebra_simps)
  then show ?thesis by (simp add: real_sqrt_mult)
qed

lemma rotation_identity:
  "(a * c - b * d)\<^sup>2 + (a * d + b * c)\<^sup>2 = (a\<^sup>2 + b\<^sup>2) * (d\<^sup>2 + c\<^sup>2)" for a b c d :: real
  by algebra

lemma norm_rotated:
  "(a * cos t - b * sin t)\<^sup>2 + (a * sin t + b * cos t)\<^sup>2 = a\<^sup>2 + b\<^sup>2"
  for a b t :: real
proof -
  have "(a * cos t - b * sin t)\<^sup>2 + (a * sin t + b * cos t)\<^sup>2
      = (a\<^sup>2 + b\<^sup>2) * ((sin t)\<^sup>2 + (cos t)\<^sup>2)"
    by (rule rotation_identity)
  then show ?thesis by simp
qed

lemma spin_keeps_speed:
  "(fst (fst (spin c delta vel)))\<^sup>2 + (snd (fst (spin c delta vel)))\<^sup>2
     = (fst vel)\<^sup>2 + (snd vel)\<^sup>2"
  by (simp add: spin_def Let_def norm_rotated)

text \<open>The velocity of a frame without an active plan: the speed is scaled by
  \<open>\<bar>1 - friction * delta\<bar>\<close> (a spin does not change it), and the cursor stops when the
  result is below the minimum speed.\<close>

lemma frameVelocity_no_plan:
  assumes idle_plan: "\<not> isPathPlanActive (EnableCurveball s) (ThrowPathPlan s)"
  shows "sqrt ((fst (fst (frameVelocity s delta)))\<^sup>2 + (snd (fst (frameVelocity s delta)))\<^sup>2)
           = (if \<bar>1 - dynamicFrictionFactor (speed (MouseVelocity s)) * delta\<bar>
                   * speed (MouseVelocity s) < MIN_THROW_SPEED_THRESHOLD
              then 0
              else \<bar>1 - dynamicFrictionFactor (speed (MouseVelocity s)) * delta\<bar>
                     * speed (MouseVelocity s))
     \<and> fst (snd (frameVelocity s delta))
           = (\<not> \<bar>1 - dynamicFrictionFactor (speed (MouseVelocity s)) * delta\<bar>
                   * speed (MouseVelocity s) < MIN_THROW_SPEED_THRESHOLD)
     \<and> (\<not> fst (snd (frameVelocity s delta)) \<longrightarrow> fst (frameVelocity s delta) = (0, 0))"
  using idle_plan
  by (simp add: frameVelocity_def Let_def case_prod_beta norm_scaled spin_keeps_speed speed_def)

lemma clampAxis_velocity:
  "snd (clampAxis bound (p, v)) = v \<or> snd (clampAxis bound (p, v)) = 0"
  by (simp add: clampAxis_def Let_def)

lemma clamped_speed_le:
  "(snd (clampAxis w (p, a)))\<^sup>2 + (snd (clampAxis h (q, b)))\<^sup>2 \<le> a\<^sup>2 + b\<^sup>2"
  using clampAxis_velocity [of w p a] clampAxis_velocity [of h q b]
  by auto

lemma useFrame_speed_le:
  assumes "IsThrown s"
  shows "speed (MouseVelocity (useFrame s delta w h))
     \<le> sqrt ((fst (fst (frameVelocity s delta)))\<^sup>2 + (snd (fst (frameVelocity s delta)))\<^sup>2)"
  unfolding speed_def useFrame_velocity [OF assms]
  by (simp add: clamped_speed_le)

lemma clampAxis_inside:
  "BOUNDARY_PADDING \<le> p \<Longrightarrow> p \<le> bound - BOUNDARY_PADDING \<Longrightarrow> clampAxis bound (p, v) = (p, v)"
  by (simp add: clampAxis_def Let_def)

lemma clampAxis_rest: "snd (clampAxis bound (p, 0)) = 0"
  by (simp add: clampAxis_def Let_def)

text \<open>
  Claim C3 as stated fails on a long frame. A cursor thrown with velocity \<open>(500, 0)\<close> and no
  plan, in a window of 1920 by 1080, meets a frame of 1.5 seconds: the friction factor is
  \<open>1 - 1.4 * 1.5 = -1.1\<close>, the velocity becomes \<open>(-550, 0)\<close>, and the speed has grown from 500
  to 550 while the cursor is still thrown.
\<close>

theorem friction_counterexample:
  "IsThrown (initialState 1920 1080\<lparr>MouseVelocity := \<lparr>vx = 500, vy = 0\<rparr>, IsThrown := True\<rparr>)
   \<and> \<not> isPathPlanActive
        (EnableCurveball (initialState 1920 1080\<lparr>MouseVelocity := \<lparr>vx = 500, vy = 0\<rparr>, IsThrown := True\<rparr>))
        (ThrowPathPlan (initialState 1920 1080\<lparr>MouseVelocity := \<lparr>vx = 500, vy = 0\<rparr>, IsThrown := True\<rparr>))
   \<and> speed (MouseVelocity (initialState 1920 1080\<lparr>MouseVelocity := \<lparr>vx = 500, vy = 0\<rparr>, IsThrown := True\<rparr>)) = 500
   \<and> MouseVelocity (useFrame (initialState 1920 1080\<lparr>MouseVelocity := \<lparr>vx = 500, vy = 0\<rparr>, IsThrown := True\<rparr>)
        (3 / 2) 1920 1080) = \<lparr>vx = - 550, vy = 0\<rparr>
   \<and> speed (MouseVelocity (useFrame (initialState 1920 1080\<lparr>MouseVelocity := \<lparr>vx = 500, vy = 0\<rparr>, IsThrown := True\<rparr>)
        (3 / 2) 1920 1080)) = 550
   \<and> IsThrown (useFrame (initialState 1920 1080\<lparr>MouseVelocity := \<lparr>vx = 500, vy = 0\<rparr>, IsThrown := True\<rparr>)
        (3 / 2) 1920 1080)"
  by (simp add: initialState_def isPathPlanActive_def speed_def useFrame_def frameVelocity_def
      emptyPlan_def dynamicFrictionFactor_def MIN_THROW_SPEED_THRESHOLD_def
      FRICTION_TRANSITION_MAX_SPEED_def FRICTION_FACTOR_HIGH_SPEED_def clampAxis_def
      BOUNDARY_PADDING_def Let_def)

text \<open>
  Claim C3, amended. Take a frame on a thrown cursor with no active path plan, with
  \<open>0 < dt\<close> and \<open>friction * dt < 2\<close> for the friction coefficient at the current speed (true
  of every \<open>dt\<close> below a third of a second). The speed after the frame is at most the speed
  before, and strictly less when the speed before is not zero. The cursor stays thrown
  exactly when the speed after friction, \<open>\<bar>1 - friction * dt\<bar>\<close> times the speed before, is
  at least the minimum speed; otherwise it is Idle with velocity exactly \<open>(0, 0)\<close>. From
  velocity \<open>(500, 0)\<close> with \<open>dt = 0.01\<close>, away from the walls, one frame leaves the speed at
  493, moves \<open>x\<close> by exactly 5 and keeps the cursor thrown.
\<close>

theorem friction_slows:
  assumes thrown: "IsThrown s"
    and no_plan: "\<not> isPathPlanActive (EnableCurveball s) (ThrowPathPlan s)"
    and pos: "0 < delta"
    and short: "dynamicFrictionFactor (speed (MouseVelocity s)) * delta < 2"
  shows "speed (MouseVelocity (useFrame s delta w h)) \<le> speed (MouseVelocity s)
     \<and> (speed (MouseVelocity s) \<noteq> 0 \<longrightarrow>
          speed (MouseVelocity (useFrame s delta w h)) < speed (MouseVelocity s))
     \<and> IsThrown (useFrame s delta w h)
          = (\<not> \<bar>1 - dynamicFrictionFactor (speed (MouseVelocity s)) * delta\<bar>
                 * speed (MouseVelocity s) < MIN_THROW_SPEED_THRESHOLD)
     \<and> (\<not> IsThrown (useFrame s delta w h) \<longrightarrow>
          MouseVelocity (useFrame s delta w h) = \<lparr>vx = 0, vy = 0\<rparr>)
     \<and> (MouseVelocity s = \<lparr>vx = 500, vy = 0\<rparr> \<and> delta = 1 / 100
          \<and> BOUNDARY_PADDING \<le> vx (MousePosition s) + 5
          \<and> vx (MousePosition s) + 5 \<le> w - BOUNDARY_PADDING
          \<and> BOUNDARY_PADDING \<le> vy (MousePosition s)
          \<and> vy (MousePosition s) \<le> h - BOUNDARY_PADDING \<longrightarrow>
          speed (MouseVelocity (useFrame s delta w h)) = 493
          \<and> vx (MousePosition (useFrame s delta w h)) = vx (MousePosition s) + 5
          \<and> IsThrown (useFrame s delta w h))"
proof -
  let ?v = "speed (MouseVelocity s)"
  let ?k = "1 - dynamicFrictionFactor ?v * delta"
  let ?fv = "frameVelocity s delta"
  let ?after = "sqrt ((fst (fst ?fv))\<^sup>2 + (snd (fst ?fv))\<^sup>2)"
  let ?s' = "useFrame s delta w h"
  note fv = frameVelocity_no_plan [OF no_plan, of delta]
  have v0: "0 \<le> ?v" by (simp add: speed_def)
  have "0 < dynamicFrictionFactor ?v"
    using friction_range [of ?v] by simp
  then have "0 < dynamicFrictionFactor ?v * delta"
    using pos by (intro mult_pos_pos)
  with short have k: "\<bar>?k\<bar> < 1" by simp
  have scaled_le: "\<bar>?k\<bar> * ?v \<le> ?v"
    using k v0 by (simp add: mult_left_le_one_le)
  have scaled_less: "\<bar>?k\<bar> * ?v < ?v" if "?v \<noteq> 0"
    using k v0 that by simp
  have after_le: "?after \<le> \<bar>?k\<bar> * ?v"
    using fv v0 by (simp add: mult_nonneg_nonneg)
  have final_le: "speed (MouseVelocity ?s') \<le> ?after"
    by (rule useFrame_speed_le [OF thrown])
  have le: "speed (MouseVelocity ?s') \<le> ?v"
    using final_le after_le scaled_le by linarith
  have less: "speed (MouseVelocity ?s') < ?v" if "?v \<noteq> 0"
    using final_le after_le scaled_less [OF that] by linarith
  have still: "IsThrown ?s' = (\<not> \<bar>?k\<bar> * ?v < MIN_THROW_SPEED_THRESHOLD)"
    using fv by (simp add: useFrame_thrown [OF thrown])
  have rest: "MouseVelocity ?s' = \<lparr>vx = 0, vy = 0\<rparr>" if "\<not> IsThrown ?s'"
  proof -
    from that have "fst ?fv = (0, 0)"
      using fv by (simp add: useFrame_thrown [OF thrown])
    then show ?thesis
      by (simp add: useFrame_velocity [OF thrown] clampAxis_rest)
  qed
  have scenario: "speed (MouseVelocity ?s') = 493
      \<and> vx (MousePosition ?s') = vx (MousePosition s) + 5 \<and> IsThrown ?s'"
    if h: "MouseVelocity s = \<lparr>vx = 500, vy = 0\<rparr> \<and> delta = 1 / 100
          \<and> BOUNDARY_PADDING \<le> vx (MousePosition s) + 5
          \<and> vx (MousePosition s) + 5 \<le> w - BOUNDARY_PADDING
          \<and> BOUNDARY_PADDING \<le> vy (MousePosition s)
          \<and> vy (MousePosition s) \<le> h - BOUNDARY_PADDING"
  proof -
    from h have v: "?v = 500" by (simp add: speed_def)
    have f: "dynamicFrictionFactor 500 = 14 / 10"
      by (simp add: dynamicFrictionFactor_def MIN_THROW_SPEED_THRESHOLD_def
          FRICTION_TRANSITION_MAX_SPEED_def FRICTION_FACTOR_HIGH_SPEED_def)
    from h have ks: "\<bar>?k\<bar> * ?v = 493" unfolding v f by simp
    have inx: "clampAxis w (vx (MousePosition s) + vx (MouseVelocity s) * delta, a)
        = (vx (MousePosition s) + 5, a)" for a
      using h by (simp add: clampAxis_inside)
    have iny: "clampAxis h (vy (MousePosition s) + vy (MouseVelocity s) * delta, b)
        = (vy (MousePosition s), b)" for b
      using h by (simp add: clampAxis_inside)
    have "speed (MouseVelocity ?s') = ?after"
      unfolding speed_def useFrame_velocity [OF thrown] inx iny by simp
    also have "\<dots> = 493"
      using fv ks by (simp add: MIN_THROW_SPEED_THRESHOLD_def)
    finally have a: "speed (MouseVelocity ?s') = 493" .
    have b: "vx (MousePosition ?s') = vx (MousePosition s) + 5"
      unfolding useFrame_position [OF thrown] inx by simp
    have c: "IsThrown ?s'"
      unfolding still ks by (simp add: MIN_THROW_SPEED_THRESHOLD_def)
    from a b c show ?thesis by blast
  qed
  from le less still rest scenario show ?thesis by blast
qed

lemma friction_short_frame_applies:
  "0 < delta \<Longrightarrow> delta < 1 / 3 \<Longrightarrow> dynamicFrictionFactor v * delta < 2"
  using friction_short_frame by blast

theorem friction_slows_witness:
  "IsThrown (initialState 800 600\<lparr>MouseVelocity := \<lparr>vx = 500, vy = 0\<rparr>, IsThrown := True\<rparr>)
   \<and> \<not> isPathPlanActive
        (EnableCurveball (initialState 800 600\<lparr>MouseVelocity := \<lparr>vx = 500, vy = 0\<rparr>, IsThrown := True\<rparr>))
        (ThrowPathPlan (initialState 800 600\<lparr>MouseVelocity := \<lparr>vx = 500, vy = 0\<rparr>, IsThrown := True\<rparr>))
   \<and> (0::real) < 1 / 100
   \<and> dynamicFrictionFactor
        (speed (MouseVelocity (initialState 800 600\<lparr>MouseVelocity := \<lparr>vx = 500, vy = 0\<rparr>, IsThrown := True\<rparr>)))
        * (1 / 100) < 2
   \<and> speed (MouseVelocity (initialState 800 600\<lparr>MouseVelocity := \<lparr>vx = 500, vy = 0\<rparr>, IsThrown := True\<rparr>)) = 500
   \<and> speed (MouseVelocity (useFrame (initialState 800 600\<lparr>MouseVelocity := \<lparr>vx = 500, vy = 0\<rparr>, IsThrown := True\<rparr>)
        (1 / 100) 800 600)) = 493
   \<and> vx (MousePosition (useFrame (initialState 800 600\<lparr>MouseVelocity := \<lparr>vx = 500, vy = 0\<rparr>, IsThrown := True\<rparr>)
        (1 / 100) 800 600)) = 405
   \<and> IsThrown (useFrame (initialState 800 600\<lparr>MouseVelocity := \<lparr>vx = 500, vy = 0\<rparr>, IsThrown := True\<rparr>)
        (1 / 100) 800 600)"
proof -
  let ?s = "initialState 800 600\<lparr>MouseVelocity := \<lparr>vx = 500, vy = 0\<rparr>, IsThrown := True\<rparr>"
  have t: "IsThrown ?s" by simp
  have p: "\<not> isPathPlanActive (EnableCurveball ?s) (ThrowPathPlan ?s)"
    by (simp add: initialState_def isPathPlanActive_def)
  have d: "(0::real) < 1 / 100" by simp
  have v: "speed (MouseVelocity ?s) = 500" by (simp add: speed_def)
  have f: "dynamicFrictionFactor (speed (MouseVelocity ?s)) * (1 / 100) < 2"
    by (rule friction_short_frame_applies) simp_all
  have c: "MouseVelocity ?s = \<lparr>vx = 500, vy = 0\<rparr> \<and> (1 / 100 :: real) = 1 / 100
          \<and> BOUNDARY_PADDING \<le> vx (MousePosition ?s) + 5
          \<and> vx (MousePosition ?s) + 5 \<le> 800 - BOUNDARY_PADDING
          \<and> BOUNDARY_PADDING \<le> vy (MousePosition ?s)
          \<and> vy (MousePosition ?s) \<le> 600 - BOUNDARY_PADDING"
    by (simp add: initialState_def BOUNDARY_PADDING_def)
  have x: "vx (MousePosition ?s) + 5 = 405" by (simp add: initialState_def)
  from friction_slows [OF t p d f, of 800 600] c
  have "speed (MouseVelocity (useFrame ?s (1 / 100) 800 600)) = 493
      \<and> vx (MousePosition (useFrame ?s (1 / 100) 800 600)) = vx (MousePosition ?s) + 5
      \<and> IsThrown (useFrame ?s (1 / 100) 800 600)"
    by blast
  with t p d f v x show ?thesis by simp
qed

section \<open>The exit spin\<close>

lemma wrapDown_le: "wrapDown a \<le> pi"
  by (induction a rule: wrapDown.induct) (subst wrapDown.simps, simp)

lemma wrapDown_low: "a \<le> pi \<Longrightarrow> wrapDown a = a"
  by (subst wrapDown.simps) simp

lemma wrapUp_ge: "- pi \<le> wrapUp a"
  by (induction a rule: wrapUp.induct) (subst wrapUp.simps, simp)

lemma wrapUp_le: "a \<le> pi \<Longrightarrow> wrapUp a \<le> pi"
proof (induction a rule: wrapUp.induct)
  case (1 a)
  show ?case
  proof (cases "a < - pi")
    case True
    then have "a + 2 * pi \<le> pi" by simp
    with 1 True show ?thesis by (subst wrapUp.simps) simp
  next
    case False
    with 1 show ?thesis by (subst wrapUp.simps) simp
  qed
qed

lemma wrapUp_high: "- pi \<le> a \<Longrightarrow> wrapUp a = a"
  by (subst wrapUp.simps) simp

lemma wrapped_range: "- pi \<le> wrapUp (wrapDown a) \<and> wrapUp (wrapDown a) \<le> pi"
  by (simp add: wrapUp_ge wrapUp_le wrapDown_le)

lemma wrapDown_turns: "\<exists>n::nat. wrapDown a = a - 2 * pi * real n"
proof (induction a rule: wrapDown.induct)
  case (1 a)
  show ?case
  proof (cases "a > pi")
    case True
    with 1 obtain n :: nat where "wrapDown (a - 2 * pi) = a - 2 * pi - 2 * pi * real n"
      by blast
    with True have "wrapDown a = a - 2 * pi * real (Suc n)"
      by (subst wrapDown.simps) (simp add: algebra_simps)
    then show ?thesis by blast
  next
    case False
    then have "wrapDown a = a - 2 * pi * real (0::nat)"
      by (subst wrapDown.simps) simp
    then show ?thesis by blast
  qed
qed

lemma wrapUp_turns: "\<exists>n::nat. wrapUp a = a + 2 * pi * real n"
proof (induction a rule: wrapUp.induct)
  case (1 a)
  show ?case
  proof (cases "a < - pi")
    case True
    with 1 obtain n :: nat where "wrapUp (a + 2 * pi) = a + 2 * pi + 2 * pi * real n"
      by blast
    with True have "wrapUp a = a + 2 * pi * real (Suc n)"
      by (subst wrapUp.simps) (simp add: algebra_simps)
    then show ?thesis by blast
  next
    case False
    then have "wrapUp a = a + 2 * pi * real (0::nat)"
      by (subst wrapUp.simps) simp
    then show ?thesis by blast
  qed
qed

lemma wrapped_turns: "\<exists>k::int. wrapUp (wrapDown a) = a + 2 * pi * real_of_int k"
proof -
  obtain n :: nat where n: "wrapDown a = a - 2 * pi * real n"
    using wrapDown_turns by blast
  obtain m :: nat where m: "wrapUp (wrapDown a) = wrapDown a + 2 * pi * real m"
    using wrapUp_turns by blast
  from m have "wrapUp (wrapDown a) = a - 2 * pi * real n + 2 * pi * real m"
    by (simp only: n)
  then have "wrapUp (wrapDown a) = a + 2 * pi * real_of_int (int m - int n)"
    by (simp add: algebra_simps)
  then show ?thesis by blast
qed

text \<open>The loop adds up, pair by pair, what the sums over the pairs' indices add up.\<close>

lemma angularLoop_sums:
  "angularLoop segs i acc =
     (fst acc + (\<Sum>j\<leftarrow>[0..<length segs - 1].
                   pairAngularVelocity (segs ! j) (segs ! (j + 1)) * real (i + j + 1)),
      fst (snd acc) + (\<Sum>j\<leftarrow>[0..<length segs - 1]. real (i + j + 1)),
      snd (snd acc) + (length segs - 1))"
proof (induction segs i acc rule: angularLoop.induct)
  case (1 seg1 seg2 rest i weightedSum sumOfWeights num)
  have len: "length (seg1 # seg2 # rest) - 1 = Suc (length rest)" by simp
  have len': "length (seg2 # rest) - 1 = length rest" by simp
  show ?case
    unfolding angularLoop.simps "1.IH" len len' map_upt_Suc
    by (simp add: algebra_simps del: upt_Suc)
qed simp_all

lemma gap_duration:
  "2 / 100 \<le> (case rest of
                 [] \<Rightarrow> 2 / 10
               | nextSample # _ \<Rightarrow>
                   max (2 / 100) ((timestamp nextSample - timestamp c) / 1000))"
  by (cases rest) simp_all

lemma build_durations:
  "seg \<in> set (buildPathSegments xs) \<Longrightarrow> 2 / 100 \<le> duration seg"
proof (induction xs)
  case Nil
  then show ?case by simp
next
  case (Cons c rest)
  show ?case
  proof (cases "sqrt (dx c * dx c + dy c * dy c) > 1 / 1000")
    case True
    with Cons.prems have "duration seg = (case rest of
                 [] \<Rightarrow> 2 / 10
               | nextSample # _ \<Rightarrow>
                   max (2 / 100) ((timestamp nextSample - timestamp c) / 1000))
        \<or> seg \<in> set (buildPathSegments rest)"
      by (auto simp: Let_def)
    then show ?thesis
      using gap_duration [where rest = rest and c = c] Cons.IH by auto
  next
    case False
    with Cons show ?thesis by (simp add: Let_def)
  qed
qed

lemma built_pair_rate:
  assumes "Suc j < length (buildPathSegments xs)"
  shows "pairAngularVelocity (buildPathSegments xs ! j) (buildPathSegments xs ! (j + 1))
     = spec_pairRate (buildPathSegments xs) j"
proof -
  from assms have "buildPathSegments xs ! (j + 1) \<in> set (buildPathSegments xs)"
    by simp
  then have "2 / 100 \<le> duration (buildPathSegments xs ! (j + 1))"
    by (rule build_durations)
  then show ?thesis
    by (simp add: pairAngularVelocity_def spec_pairRate_def spec_angleDiff_def Let_def)
qed

lemma weights_positive: "0 < m \<Longrightarrow> 0 < (\<Sum>j\<leftarrow>[0..<m]. real (j + 1))"
proof (induction m)
  case 0
  then show ?case by simp
next
  case (Suc m)
  have "0 \<le> (\<Sum>j\<leftarrow>[0..<m]. real (j + 1))"
    by (intro sum_list_nonneg) auto
  then show ?case by simp
qed

lemma calculated_is_weighted_average:
  assumes "2 \<le> length (buildPathSegments xs)"
  shows "calculatedEndingAngularVelocity (buildPathSegments xs)
     = spec_weightedAverage (buildPathSegments xs)"
proof -
  let ?segs = "buildPathSegments xs"
  let ?m = "length ?segs - 1"
  have rates: "(\<Sum>j\<leftarrow>[0..<?m]. pairAngularVelocity (?segs ! j) (?segs ! (j + 1)) * real (0 + j + 1))
      = (\<Sum>j\<leftarrow>[0..<?m]. real (j + 1) * spec_pairRate ?segs j)"
  proof (rule arg_cong [where f = sum_list], rule map_cong [OF refl])
    fix j assume "j \<in> set [0..<?m]"
    then have "Suc j < length ?segs" by auto
    then show "pairAngularVelocity (?segs ! j) (?segs ! (j + 1)) * real (0 + j + 1)
        = real (j + 1) * spec_pairRate ?segs j"
      using built_pair_rate [of j xs] by simp
  qed
  have m: "0 < ?m" using assms by simp
  have w: "0 < (\<Sum>j\<leftarrow>[0..<?m]. real (j + 1))"
    by (rule weights_positive [OF m])
  have "angularLoop ?segs 0 (0, 0, 0)
      = ((\<Sum>j\<leftarrow>[0..<?m]. real (j + 1) * spec_pairRate ?segs j),
         (\<Sum>j\<leftarrow>[0..<?m]. real (j + 1)), ?m)"
    unfolding angularLoop_sums using rates by simp
  then show ?thesis
    using assms m w
    by (simp add: calculatedEndingAngularVelocity_def MIN_SEGMENTS_FOR_ENDING_CURVE_def
        spec_weightedAverage_def)
qed

lemma calculated_few_segments:
  "length segs < 2 \<Longrightarrow> calculatedEndingAngularVelocity segs = 0"
  by (simp add: calculatedEndingAngularVelocity_def MIN_SEGMENTS_FOR_ENDING_CURVE_def)

lemma spec_angleDiff_range:
  "- pi \<le> spec_angleDiff segs i \<and> spec_angleDiff segs i \<le> pi"
  unfolding spec_angleDiff_def by (rule wrapped_range)

lemma spec_angleDiff_turns:
  "\<exists>k::int. spec_angleDiff segs i
      = Math_atan2 (seg_dy (segs ! (i + 1))) (seg_dx (segs ! (i + 1)))
          - Math_atan2 (seg_dy (segs ! i)) (seg_dx (segs ! i)) + 2 * pi * real_of_int k"
  unfolding spec_angleDiff_def by (rule wrapped_turns)

lemma planThrow_ending:
  "endingAngularVelocity (ThrowPathPlan (fst (planThrow s recent base)))
     = (if EnableCurveball s \<and> 2 \<le> length (buildPathSegments (sort_key timestamp recent))
        then spec_weightedAverage (buildPathSegments (sort_key timestamp recent)) else 0)
   \<and> MouseContinuingAngularVelocity (fst (planThrow s recent base))
     = (if EnableCurveball s \<and> 2 \<le> length (buildPathSegments (sort_key timestamp recent))
        then spec_weightedAverage (buildPathSegments (sort_key timestamp recent)) else 0)"
proof (cases "EnableCurveball s \<and> recent \<noteq> []")
  case False
  have "buildPathSegments (sort_key timestamp recent) = []" if "recent = []"
    using that by simp
  with False show ?thesis
    by (auto simp: planThrow_def emptyPlan_def)
next
  case True
  let ?segs = "buildPathSegments (sort_key timestamp recent)"
  show ?thesis
  proof (cases "2 \<le> length ?segs")
    case two: True
    then have "?segs \<noteq> []" by auto
    with True two show ?thesis
      by (simp add: planThrow_def Let_def calculated_is_weighted_average)
  next
    case few: False
    then have "calculatedEndingAngularVelocity ?segs = 0"
      by (intro calculated_few_segments) simp
    with True few show ?thesis
      by (simp add: planThrow_def Let_def emptyPlan_def)
  qed
qed

lemma execute_plan:
  assumes "\<not> IsThrown s" "baseDirection s (recentSamples s t) = Some base"
  shows "ThrowPathPlan (executeActualThrowLogic s t)
           = ThrowPathPlan (fst (planThrow s (recentSamples s t) base))
     \<and> MouseContinuingAngularVelocity (executeActualThrowLogic s t)
           = MouseContinuingAngularVelocity (fst (planThrow s (recentSamples s t) base))"
  using assms by (simp add: executeActualThrowLogic_def split: prod.splits)

lemma atan2_east: "Math_atan2 0 1 = 0"
  by (simp add: Math_atan2_def)

lemma atan2_north: "Math_atan2 1 0 = pi / 2"
  by (simp add: Math_atan2_def)

lemma atan2_west: "Math_atan2 0 (- 1) = pi"
  by (simp add: Math_atan2_def)

lemma quarter_turn_unwrapped: "wrapUp (wrapDown (pi / 2)) = pi / 2"
proof -
  have "wrapDown (pi / 2) = pi / 2"
    by (rule wrapDown_low) simp
  moreover have "wrapUp (pi / 2) = pi / 2"
    by (rule wrapUp_high) (use pi_gt_zero in linarith)
  ultimately show ?thesis by (simp only:)
qed

text \<open>
  Claim C5 as stated fails in its last part. With curveball mode on and two usable samples
  in the window, \<open>(1, 0)\<close> at 1000 and \<open>(0, 1)\<close> at 1040, there are two segments and one
  pair, fewer than 2 pairs, and the ending angular velocity is that pair's quarter turn
  over the second segment's 0.2 seconds, \<open>5\<pi>/2\<close>, not 0.
\<close>

theorem exit_spin_counterexample:
  "length (buildPathSegments (sort_key timestamp (recentSamples
      (initialState 800 600
        \<lparr>ArmDirectionHistory := [\<lparr>dx = 1, dy = 0, timestamp = 1000\<rparr>,
                                  \<lparr>dx = 0, dy = 1, timestamp = 1040\<rparr>],
         ConfigurableLookaheadDelayMs := 0, EnableCurveball := True\<rparr>) 1040))) - 1 = 1
   \<and> endingAngularVelocity (ThrowPathPlan (executeActualThrowLogic
      (initialState 800 600
        \<lparr>ArmDirectionHistory := [\<lparr>dx = 1, dy = 0, timestamp = 1000\<rparr>,
                                  \<lparr>dx = 0, dy = 1, timestamp = 1040\<rparr>],
         ConfigurableLookaheadDelayMs := 0, EnableCurveball := True\<rparr>) 1040)) = 5 * pi / 2
   \<and> 5 * pi / 2 \<noteq> 0"
proof -
  let ?s = "initialState 800 600
        \<lparr>ArmDirectionHistory := [\<lparr>dx = 1, dy = 0, timestamp = 1000\<rparr>,
                                  \<lparr>dx = 0, dy = 1, timestamp = 1040\<rparr>],
         ConfigurableLookaheadDelayMs := 0, EnableCurveball := True\<rparr>"
  let ?segs = "[\<lparr>seg_dx = 1, seg_dy = 0, duration = 4 / 100\<rparr>,
                \<lparr>seg_dx = 0, seg_dy = 1, duration = 2 / 10\<rparr>]"
  have r: "recentSamples ?s 1040 = [\<lparr>dx = 1, dy = 0, timestamp = 1000\<rparr>,
                                     \<lparr>dx = 0, dy = 1, timestamp = 1040\<rparr>]"
    by (simp add: recentSamples_def initialState_def)
  have b: "buildPathSegments (sort_key timestamp (recentSamples ?s 1040)) = ?segs"
    unfolding r by (simp add: Let_def)
  have c: "calculatedEndingAngularVelocity ?segs = 5 * pi / 2"
    by (simp add: calculatedEndingAngularVelocity_def MIN_SEGMENTS_FOR_ENDING_CURVE_def
        pairAngularVelocity_def Let_def atan2_east atan2_north quarter_turn_unwrapped)
  have i: "\<not> IsThrown ?s" by (simp add: initialState_def)
  have d: "baseDirection ?s (recentSamples ?s 1040) = Some (1 / 2, 1 / 2)"
    unfolding r by (simp add: baseDirection_def averageDirection_def)
  have "endingAngularVelocity (ThrowPathPlan (fst (planThrow ?s (recentSamples ?s 1040) (1 / 2, 1 / 2))))
      = calculatedEndingAngularVelocity ?segs"
    unfolding planThrow_def b by (simp add: r Let_def)
  with execute_plan [OF i d] c
  have e: "endingAngularVelocity (ThrowPathPlan (executeActualThrowLogic ?s 1040)) = 5 * pi / 2"
    by simp
  from b e show ?thesis by simp
qed

text \<open>
  Claim C5, amended. At every commit from Idle whose direction is not the zero vector,
  the ending angular velocity stored in the plan (and as the continuing angular velocity)
  is, when curveball mode is on and the window yields at least 2 usable segments, the
  average over the adjacent pairs of segments of the pairs' angular velocities, pair \<open>i\<close>
  with weight \<open>i + 1\<close>; a pair's angular velocity is the difference of the two directions'
  angles, brought into \<open>[-\<pi>, \<pi>]\<close> by whole turns, divided by the second segment's
  duration. With fewer than 2 usable segments, that is with no pair at all, or with
  curveball mode off, it is 0.
\<close>

theorem exit_spin:
  assumes idle: "\<not> IsThrown s"
    and dir: "baseDirection s (recentSamples s t) = Some base"
    and nonzero: "(EnableCurveball s
                   \<and> buildPathSegments (sort_key timestamp (recentSamples s t)) \<noteq> [])
                  \<or> base \<noteq> (0, 0)"
  shows "endingAngularVelocity (ThrowPathPlan (executeActualThrowLogic s t))
           = (if EnableCurveball s
                 \<and> 2 \<le> length (buildPathSegments (sort_key timestamp (recentSamples s t)))
              then spec_weightedAverage (buildPathSegments (sort_key timestamp (recentSamples s t)))
              else 0)
     \<and> MouseContinuingAngularVelocity (executeActualThrowLogic s t)
           = endingAngularVelocity (ThrowPathPlan (executeActualThrowLogic s t))
     \<and> - pi \<le> spec_angleDiff segs i \<and> spec_angleDiff segs i \<le> pi
     \<and> (\<exists>k::int. spec_angleDiff segs i
            = Math_atan2 (seg_dy (segs ! (i + 1))) (seg_dx (segs ! (i + 1)))
                - Math_atan2 (seg_dy (segs ! i)) (seg_dx (segs ! i)) + 2 * pi * real_of_int k)"
  using execute_plan [OF idle dir] planThrow_ending [of s "recentSamples s t" base]
    spec_angleDiff_range [of segs i] spec_angleDiff_turns [of segs i]
  by simp

lemma three_segments_average:
  "spec_weightedAverage
     [\<lparr>seg_dx = 1, seg_dy = 0, duration = 2 / 100\<rparr>,
      \<lparr>seg_dx = 0, seg_dy = 1, duration = 2 / 100\<rparr>,
      \<lparr>seg_dx = - 1, seg_dy = 0, duration = 2 / 10\<rparr>] = 10 * pi"
proof -
  have two: "[0..<2] = [0, Suc 0]"
    by (simp add: upt_rec)
  show ?thesis
    by (simp add: spec_weightedAverage_def two spec_pairRate_def spec_angleDiff_def
        atan2_east atan2_north atan2_west quarter_turn_unwrapped)
qed

theorem exit_spin_witness:
  "\<not> IsThrown (initialState 800 600
        \<lparr>ArmDirectionHistory := [\<lparr>dx = 1, dy = 0, timestamp = 1000\<rparr>,
                                  \<lparr>dx = 0, dy = 1, timestamp = 1020\<rparr>,
                                  \<lparr>dx = - 1, dy = 0, timestamp = 1040\<rparr>],
         ConfigurableLookaheadDelayMs := 0, EnableCurveball := True\<rparr>)
   \<and> baseDirection (initialState 800 600
        \<lparr>ArmDirectionHistory := [\<lparr>dx = 1, dy = 0, timestamp = 1000\<rparr>,
                                  \<lparr>dx = 0, dy = 1, timestamp = 1020\<rparr>,
                                  \<lparr>dx = - 1, dy = 0, timestamp = 1040\<rparr>],
         ConfigurableLookaheadDelayMs := 0, EnableCurveball := True\<rparr>)
       [\<lparr>dx = 1, dy = 0, timestamp = 1000\<rparr>, \<lparr>dx = 0, dy = 1, timestamp = 1020\<rparr>,
        \<lparr>dx = - 1, dy = 0, timestamp = 1040\<rparr>] = Some (0, 1 / 3)
   \<and> endingAngularVelocity (ThrowPathPlan (executeActualThrowLogic (initialState 800 600
        \<lparr>ArmDirectionHistory := [\<lparr>dx = 1, dy = 0, timestamp = 1000\<rparr>,
                                  \<lparr>dx = 0, dy = 1, timestamp = 1020\<rparr>,
                                  \<lparr>dx = - 1, dy = 0, timestamp = 1040\<rparr>],
         ConfigurableLookaheadDelayMs := 0, EnableCurveball := True\<rparr>) 1040)) = 10 * pi
   \<and> MouseContinuingAngularVelocity (executeActualThrowLogic (initialState 800 600
        \<lparr>ArmDirectionHistory := [\<lparr>dx = 1, dy = 0, timestamp = 1000\<rparr>,
                                  \<lparr>dx = 0, dy = 1, timestamp = 1020\<rparr>,
                                  \<lparr>dx = - 1, dy = 0, timestamp = 1040\<rparr>],
         ConfigurableLookaheadDelayMs := 0, EnableCurveball := True\<rparr>) 1040) = 10 * pi"
proof -
  let ?s = "initialState 800 600
        \<lparr>ArmDirectionHistory := [\<lparr>dx = 1, dy = 0, timestamp = 1000\<rparr>,
                                  \<lparr>dx = 0, dy = 1, timestamp = 1020\<rparr>,
                                  \<lparr>dx = - 1, dy = 0, timestamp = 1040\<rparr>],
         ConfigurableLookaheadDelayMs := 0, EnableCurveball := True\<rparr>"
  let ?recent = "[\<lparr>dx = 1, dy = 0, timestamp = 1000\<rparr>, \<lparr>dx = 0, dy = 1, timestamp = 1020\<rparr>,
        \<lparr>dx = - 1, dy = 0, timestamp = 1040\<rparr>]"
  let ?segs = "[\<lparr>seg_dx = 1, seg_dy = 0, duration = 2 / 100\<rparr>,
      \<lparr>seg_dx = 0, seg_dy = 1, duration = 2 / 100\<rparr>,
      \<lparr>seg_dx = - 1, seg_dy = 0, duration = 2 / 10\<rparr>]"
  have i: "\<not> IsThrown ?s" by (simp add: initialState_def)
  have r: "recentSamples ?s 1040 = ?recent"
    by (simp add: recentSamples_def initialState_def)
  have d: "baseDirection ?s ?recent = Some (0, 1 / 3)"
    by (simp add: baseDirection_def averageDirection_def)
  have d': "baseDirection ?s (recentSamples ?s 1040) = Some (0, 1 / 3)"
    unfolding r by (rule d)
  have b: "buildPathSegments (sort_key timestamp (recentSamples ?s 1040)) = ?segs"
    unfolding r by (simp add: Let_def)
  have c: "EnableCurveball ?s" by simp
  have n: "(EnableCurveball ?s
                   \<and> buildPathSegments (sort_key timestamp (recentSamples ?s 1040)) \<noteq> [])
                  \<or> (0, 1 / 3) \<noteq> (0 :: real, 0 :: real)"
    by simp
  from exit_spin [OF i d' n] c
  have "endingAngularVelocity (ThrowPathPlan (executeActualThrowLogic ?s 1040))
      = spec_weightedAverage ?segs
    \<and> MouseContinuingAngularVelocity (executeActualThrowLogic ?s 1040)
      = endingAngularVelocity (ThrowPathPlan (executeActualThrowLogic ?s 1040))"
    unfolding b by simp
  with i d show ?thesis
    by (simp only: three_segments_average) simp
qed

end
